theory Spec2Isabelle
  imports Complex_Main "HOL-Library.Sublist" "HOL-Library.Signed_Division"
begin

section \<open>Shared values\<close>

text \<open>
  Addresses are the checksummed hexadecimal strings ethers hands out. A bigint is an
  unbounded integer; its division truncates towards zero, which is \<open>sdiv\<close>.
  A rejected promise or a thrown \<open>Error\<close> is a value of type \<open>error\<close>:
  \<open>Error m\<close> carries the message \<open>m\<close>, and \<open>InsufficientEth b\<close> stands for the
  templated message of \<open>executeSell\<close> that quotes the formatted balance \<open>b\<close>.
\<close>

type_synonym address = string
type_synonym bigint = int
type_synonym txhash = string

datatype error = Error string | InsufficientEth bigint

definition WETH_BASE :: address where
  "WETH_BASE = ''0x4200000000000000000000000000000000000006''"

definition MaxUint256 :: bigint where
  "MaxUint256 = 2 ^ 256 - 1"

section \<open>Calls that leave the process\<close>

text \<open>
  Every awaited provider or contract call is recorded, in program order, with the
  arguments the code passes. A V2 path is an address array, an Aerodrome path an array of
  \<open>(from, to, stable)\<close> hops.
\<close>

datatype path = V2Path "address list" | AeroRoutes "(address \<times> address \<times> bool) list"

datatype swapcall =
    ExactInputSingle address address nat address bigint bigint bigint
  | SwapExactETHForTokens bigint path address int
  | SwapExactTokensForETH bigint bigint path address int

datatype call =
    GetFeeData
  | TokenDecimals address
  | TokenBalanceOf address address
  | Allowance address address address
  | Approve address address bigint
  | WaitApproval txhash
  | GetBalance address
  | GetAmountsOut address bigint path
  | EstimateGas address swapcall "bigint option"
  | SendSwap address swapcall "bigint option" bigint "bigint option" bigint

type_synonym 'a io = "call list \<times> (error + 'a)"

definition ret :: "'a \<Rightarrow> 'a io" where
  "ret x = ([], Inr x)"

definition throw :: "error \<Rightarrow> 'a io" where
  "throw e = ([], Inl e)"

definition lift :: "string + 'a \<Rightarrow> 'a io" where
  \<comment> \<open>a library function that computes locally and may throw\<close>
  "lift r = ([], (case r of Inl m \<Rightarrow> Inl (Error m) | Inr x \<Rightarrow> Inr x))"

definition request :: "call \<Rightarrow> string + 'a \<Rightarrow> 'a io" where
  \<comment> \<open>an awaited call: it is issued, and the answer is a value or a rejection\<close>
  "request c r = ([c], (case r of Inl m \<Rightarrow> Inl (Error m) | Inr x \<Rightarrow> Inr x))"

definition andThen :: "'a io \<Rightarrow> ('a \<Rightarrow> 'b io) \<Rightarrow> 'b io" where
  "andThen m f =
     (case m of
        (t, Inl e) \<Rightarrow> (t, Inl e)
      | (t, Inr x) \<Rightarrow> (case f x of (t', r) \<Rightarrow> (t @ t', r)))"

definition all2 :: "'a io \<Rightarrow> 'b io \<Rightarrow> ('a \<times> 'b) io" where
  \<comment> \<open>\<open>Promise.all\<close> of two calls: both are issued, the first rejection wins\<close>
  "all2 m n =
     (case (m, n) of
        ((t, Inl e), (t', _)) \<Rightarrow> (t @ t', Inl e)
      | ((t, Inr x), (t', Inl e)) \<Rightarrow> (t @ t', Inl e)
      | ((t, Inr x), (t', Inr y)) \<Rightarrow> (t @ t', Inr (x, y)))"

section \<open>The chain as seen by one trade\<close>

text \<open>
  Each call site of \<open>executeBuy\<close> and \<open>executeSell\<close> is reached at most once in a run,
  so the world lists the answer given at each site: \<open>Inl m\<close> is a rejection with
  message \<open>m\<close>. \<open>w_parseUnits\<close> is ethers' \<open>parseUnits\<close>, \<open>w_now\<close> is \<open>Date.now()\<close>.
\<close>

record world =
  w_now :: int
  w_parseUnits :: "string \<Rightarrow> nat \<Rightarrow> string + bigint"
  w_feeData :: "string + (bigint option \<times> bigint option)"
  w_decimals :: "string + nat"
  w_balanceOf :: "string + bigint"
  w_allowance :: "string + bigint"
  w_approve :: "string + txhash"
  w_approveWait :: "string + unit"
  w_ethBalance :: "string + bigint"
  w_amountsOut :: "string + bigint list"
  w_estimateGas :: "string + bigint"
  w_sendSwap :: "string + txhash"

record GasData =
  maxFeePerGas :: "bigint option"
  maxPriorityFeePerGas :: bigint
  gasPrice :: "bigint option"

record TradeParams =
  tokenAddress :: address
  amount :: string
  slippage :: "int option"
  wallet :: address
  dex :: string
  router :: address
  fee :: "nat option"
  isStable :: "bool option"

text \<open>
  \<open>slippage\<close> is a JavaScript number: \<open>Some s\<close> when it is the integer \<open>s\<close>,
  \<open>None\<close> when it is \<open>NaN\<close> or has a fraction, where \<open>BigInt(100 - slippage)\<close>
  throws a \<open>RangeError\<close>. For an integer in the range of safe integers the subtraction
  is exact.
\<close>

definition getGasData :: "world \<Rightarrow> GasData io" where
  "getGasData w =
     andThen (request GetFeeData (w_feeData w)) (\<lambda>feeData.
       ret \<lparr>maxFeePerGas = fst feeData, maxPriorityFeePerGas = 100000,
            gasPrice = snd feeData\<rparr>)"

definition estimateGasWithBuffer ::
  "world \<Rightarrow> address \<Rightarrow> swapcall \<Rightarrow> bigint option \<Rightarrow> bigint io" where
  "estimateGasWithBuffer w contract args val =
     ([EstimateGas contract args val],
      Inr (case w_estimateGas w of
             Inr estimated \<Rightarrow> (estimated * 130) sdiv 100
           | Inl _ \<Rightarrow> 300000))"

definition sendSwap ::
  "world \<Rightarrow> address \<Rightarrow> swapcall \<Rightarrow> bigint option \<Rightarrow> bigint \<Rightarrow> GasData \<Rightarrow> txhash io" where
  "sendSwap w contract args val gasLimit gasData =
     request (SendSwap contract args val gasLimit (maxFeePerGas gasData)
                (maxPriorityFeePerGas gasData)) (w_sendSwap w)"

definition amountsAt1 :: "bigint list \<Rightarrow> string + bigint" where
  \<comment> \<open>\<open>amounts[1]\<close> on an ethers \<open>Result\<close>: an index past the end throws\<close>
  "amountsAt1 amounts =
     (if 1 < length amounts then Inr (amounts ! 1) else Inl ''out of result range'')"

definition toBigInt :: "int option \<Rightarrow> int \<Rightarrow> string + bigint" where
  \<comment> \<open>\<open>BigInt(100 - slippage)\<close>\<close>
  "toBigInt slip k =
     (case slip of
        Some s \<Rightarrow> Inr (k - s)
      | None \<Rightarrow> Inl ''The number NaN cannot be converted to a BigInt because it is not an integer'')"

definition quoteMinOut ::
  "world \<Rightarrow> address \<Rightarrow> bigint \<Rightarrow> path \<Rightarrow> int option \<Rightarrow> string \<Rightarrow> string \<Rightarrow> bigint io" where
  \<comment> \<open>the \<open>try { getAmountsOut ... } catch\<close> block; \<open>zeroMsg\<close> is the message thrown on a
      zero quote, \<open>needle\<close> the text the catch clause looks for before rethrowing\<close>
  "quoteMinOut w contract amountIn p slip zeroMsg needle =
     ([GetAmountsOut contract amountIn p],
      (let attempt =
             (case w_amountsOut w of
                Inl m \<Rightarrow> Inl m
              | Inr amounts \<Rightarrow>
                  (case amountsAt1 amounts of
                     Inl m \<Rightarrow> Inl m
                   | Inr a1 \<Rightarrow>
                       if a1 = 0 then Inl zeroMsg
                       else (case toBigInt slip 100 of
                               Inl m \<Rightarrow> Inl m
                             | Inr k \<Rightarrow> Inr ((a1 * k) sdiv 100))))
       in case attempt of
            Inr amountOutMin \<Rightarrow> Inr amountOutMin
          | Inl m \<Rightarrow> if sublist needle m then Inl (Error m) else Inr 0))"

definition feeOrDefault :: "nat option \<Rightarrow> nat" where
  \<comment> \<open>\<open>params.fee || 3000\<close>\<close>
  "feeOrDefault f = (case f of None \<Rightarrow> 3000 | Some n \<Rightarrow> if n = 0 then 3000 else n)"

definition stableOrFalse :: "bool option \<Rightarrow> bool" where
  \<comment> \<open>\<open>params.isStable || false\<close>\<close>
  "stableOrFalse b = (case b of None \<Rightarrow> False | Some v \<Rightarrow> v)"

definition deadlineAt :: "world \<Rightarrow> int" where
  "deadlineAt w = w_now w div 1000 + 300"

definition executeBuy :: "world \<Rightarrow> TradeParams \<Rightarrow> txhash io" where
  "executeBuy w p =
     andThen (getGasData w) (\<lambda>gasData.
     andThen (lift (w_parseUnits w (amount p) 18)) (\<lambda>amountInWei.
       if dex p = ''Uniswap V3'' then
         (let swapParams = ExactInputSingle WETH_BASE (tokenAddress p) (feeOrDefault (fee p))
                             (wallet p) amountInWei 0 0
          in andThen (estimateGasWithBuffer w (router p) swapParams (Some amountInWei))
               (\<lambda>gasLimit. sendSwap w (router p) swapParams (Some amountInWei) gasLimit gasData))
       else if dex p = ''Aerodrome'' then
         (let routes = AeroRoutes [(WETH_BASE, tokenAddress p, stableOrFalse (isStable p))]
          in andThen (quoteMinOut w (router p) amountInWei routes (slippage p)
                        ''No liquidity available on Aerodrome for this token.'' ''No liquidity'')
               (\<lambda>amountOutMin.
                  let swapArgs = SwapExactETHForTokens amountOutMin routes (wallet p) (deadlineAt w)
                  in andThen (estimateGasWithBuffer w (router p) swapArgs (Some amountInWei))
                       (\<lambda>gasLimit.
                          sendSwap w (router p) swapArgs (Some amountInWei) gasLimit gasData)))
       else
         (let pth = V2Path [WETH_BASE, tokenAddress p]
          in andThen (quoteMinOut w (router p) amountInWei pth (slippage p)
                        ''No liquidity available on Uniswap V2 for this token.'' ''No liquidity'')
               (\<lambda>amountOutMin.
                  let swapArgs = SwapExactETHForTokens amountOutMin pth (wallet p) (deadlineAt w)
                  in andThen (estimateGasWithBuffer w (router p) swapArgs (Some amountInWei))
                       (\<lambda>gasLimit.
                          sendSwap w (router p) swapArgs (Some amountInWei) gasLimit gasData)))))"

definition ensureApproval :: "world \<Rightarrow> address \<Rightarrow> address \<Rightarrow> address \<Rightarrow> txhash option io" where
  "ensureApproval w token spender owner =
     andThen (request (Allowance token owner spender) (w_allowance w)) (\<lambda>allowance.
       if allowance < MaxUint256 sdiv 2 then
         andThen (request (Approve token spender MaxUint256) (w_approve w)) (\<lambda>tx. ret (Some tx))
       else ret None)"

definition minGasNeeded :: bigint where
  \<comment> \<open>\<open>parseUnits("0.000001", "ether")\<close>\<close>
  "minGasNeeded = 1000000000000"

definition sellSwap :: "world \<Rightarrow> TradeParams \<Rightarrow> GasData \<Rightarrow> bigint \<Rightarrow> txhash io" where
  \<comment> \<open>the three router branches of \<open>executeSell\<close>, after the balance check\<close>
  "sellSwap w p gasData amountInUnits =
     (if dex p = ''Uniswap V3'' then
        (let swapParams = ExactInputSingle (tokenAddress p) WETH_BASE (feeOrDefault (fee p))
                            (wallet p) amountInUnits 0 0
         in andThen (estimateGasWithBuffer w (router p) swapParams None)
              (\<lambda>gasLimit. sendSwap w (router p) swapParams None gasLimit gasData))
      else if dex p = ''Aerodrome'' then
        (let routes = AeroRoutes [(tokenAddress p, WETH_BASE, stableOrFalse (isStable p))]
         in andThen (quoteMinOut w (router p) amountInUnits routes (slippage p)
                       ''Cannot sell: Zero liquidity on Aerodrome. You will get 0 ETH.''
                       ''Zero liquidity'')
              (\<lambda>amountOutMin.
                 let swapArgs = SwapExactTokensForETH amountInUnits amountOutMin routes
                                  (wallet p) (deadlineAt w)
                 in andThen (estimateGasWithBuffer w (router p) swapArgs None)
                      (\<lambda>gasLimit. sendSwap w (router p) swapArgs None gasLimit gasData)))
      else
        (let pth = V2Path [tokenAddress p, WETH_BASE]
         in andThen (quoteMinOut w (router p) amountInUnits pth (slippage p)
                       ''Cannot sell: Zero liquidity on Uniswap V2. You will get 0 ETH.''
                       ''Zero liquidity'')
              (\<lambda>amountOutMin.
                 let swapArgs = SwapExactTokensForETH amountInUnits amountOutMin pth
                                  (wallet p) (deadlineAt w)
                 in andThen (estimateGasWithBuffer w (router p) swapArgs None)
                      (\<lambda>gasLimit. sendSwap w (router p) swapArgs None gasLimit gasData))))"

definition sellPrepare :: "world \<Rightarrow> TradeParams \<Rightarrow> (GasData \<times> bigint) io" where
  \<comment> \<open>\<open>executeSell\<close> up to the router branches: fee data, token reads, clamping,
      approval, native balance check; it yields the fee data and the amount to sell\<close>
  "sellPrepare w p =
     andThen (getGasData w) (\<lambda>gasData.
     andThen (all2 (request (TokenDecimals (tokenAddress p)) (w_decimals w))
                   (request (TokenBalanceOf (tokenAddress p) (wallet p)) (w_balanceOf w)))
       (\<lambda>(decimals, actualBalance).
     andThen (lift (w_parseUnits w (amount p) decimals)) (\<lambda>parsed.
       let amountInUnits = (if parsed > actualBalance then actualBalance else parsed)
       in if amountInUnits = 0 then throw (Error ''No token balance to sell'')
          else
     andThen (ensureApproval w (tokenAddress p) (router p) (wallet p)) (\<lambda>approvalTx.
     andThen (case approvalTx of
                Some tx \<Rightarrow> request (WaitApproval tx) (w_approveWait w)
              | None \<Rightarrow> ret ()) (\<lambda>_.
     andThen (request (GetBalance (wallet p)) (w_ethBalance w)) (\<lambda>ethBalance.
       if ethBalance < minGasNeeded then throw (InsufficientEth ethBalance)
       else ret (gasData, amountInUnits)))))))"

definition executeSell :: "world \<Rightarrow> TradeParams \<Rightarrow> txhash io" where
  "executeSell w p =
     andThen (sellPrepare w p) (\<lambda>(gasData, amountInUnits). sellSwap w p gasData amountInUnits)"

section \<open>Liquidity discovery\<close>

definition ZERO :: address where
  \<comment> \<open>\<open>ethers.ZeroAddress\<close>\<close>
  "ZERO = ''0x0000000000000000000000000000000000000000''"

definition UNISWAP_V2_FACTORY :: address where
  "UNISWAP_V2_FACTORY = ''0x8909Dc15e40173Ff4699343b6eB8132c65e18eC6''"

definition AERODROME_FACTORY :: address where
  "AERODROME_FACTORY = ''0x420DD381b31aEf6683db6B902084cB0FFECe40Da''"

definition UNISWAP_V3_FACTORY :: address where
  "UNISWAP_V3_FACTORY = ''0x33128a8fC17869897dcE68Ed026d694621f6FDfD''"

definition UNISWAP_V2_ROUTER :: address where
  "UNISWAP_V2_ROUTER = ''0x4752ba5DBc23f44D87826276BF6Fd6b1C372aD24''"

definition AERODROME_ROUTER :: address where
  "AERODROME_ROUTER = ''0xcF77a3Ba9A5CA399B7c97c74d54e5b1Beb874E43''"

definition UNISWAP_V3_ROUTER :: address where
  "UNISWAP_V3_ROUTER = ''0x2626664c2603336E57B271c5C0b26F421741e481''"

record LiquidityResult =
  l_dex :: string
  l_router :: address
  pairAddress :: address
  hasLiquidity :: bool
  l_fee :: "nat option"
  l_isStable :: "bool option"

text \<open>
  The reads of one scan: \<open>c_getPair factory\<close> answers \<open>getPair(token, WETH)\<close> on that
  factory, \<open>c_wethBalanceOf a\<close> answers \<open>WETH.balanceOf(a)\<close>, \<open>c_getPool fee\<close> answers
  \<open>getPool(token, WETH, fee)\<close> on the V3 factory.
\<close>

record chain =
  c_getPair :: "address \<Rightarrow> string + address"
  c_wethBalanceOf :: "address \<Rightarrow> string + bigint"
  c_getPool :: "nat \<Rightarrow> string + address"

datatype probe =
    GetPair address address address
  | WethBalanceOf address
  | GetPool address address address nat

definition probePair :: "chain \<Rightarrow> address \<Rightarrow> address \<Rightarrow> probe list \<times> address option" where
  \<comment> \<open>one \<open>try { getPair; balanceOf } catch { }\<close> block: the pair when it is funded\<close>
  "probePair c factory tokenAddr =
     (case c_getPair c factory of
        Inl _ \<Rightarrow> ([GetPair factory tokenAddr WETH_BASE], None)
      | Inr pair \<Rightarrow>
          if pair \<noteq> ZERO then
            (case c_wethBalanceOf c pair of
               Inl _ \<Rightarrow> ([GetPair factory tokenAddr WETH_BASE, WethBalanceOf pair], None)
             | Inr wethBalance \<Rightarrow>
                 ([GetPair factory tokenAddr WETH_BASE, WethBalanceOf pair],
                  if wethBalance > 0 then Some pair else None))
          else ([GetPair factory tokenAddr WETH_BASE], None))"

fun probePools :: "chain \<Rightarrow> address \<Rightarrow> nat list \<Rightarrow> probe list \<times> (address \<times> nat) option" where
  \<comment> \<open>\<open>for (const fee of feeTiers) { try { getPool ... } catch { } }\<close>\<close>
  "probePools c tokenAddr [] = ([], None)"
| "probePools c tokenAddr (tier # tiers) =
     (case c_getPool c tier of
        Inr pool \<Rightarrow>
          if pool \<noteq> ZERO
          then ([GetPool UNISWAP_V3_FACTORY tokenAddr WETH_BASE tier], Some (pool, tier))
          else (case probePools c tokenAddr tiers of
                  (t, r) \<Rightarrow> (GetPool UNISWAP_V3_FACTORY tokenAddr WETH_BASE tier # t, r))
      | Inl _ \<Rightarrow>
          (case probePools c tokenAddr tiers of
             (t, r) \<Rightarrow> (GetPool UNISWAP_V3_FACTORY tokenAddr WETH_BASE tier # t, r)))"

definition feeTiers :: "nat list" where
  "feeTiers = [3000, 10000, 500]"

definition checkLiquidityFast :: "chain \<Rightarrow> address \<Rightarrow> probe list \<times> LiquidityResult" where
  "checkLiquidityFast c tokenAddr =
     (case probePair c UNISWAP_V2_FACTORY tokenAddr of
        (t1, Some pair) \<Rightarrow>
          (t1, \<lparr>l_dex = ''Uniswap V2'', l_router = UNISWAP_V2_ROUTER, pairAddress = pair,
                hasLiquidity = True, l_fee = None, l_isStable = None\<rparr>)
      | (t1, None) \<Rightarrow>
          (case probePair c AERODROME_FACTORY tokenAddr of
             (t2, Some pair) \<Rightarrow>
               (t1 @ t2, \<lparr>l_dex = ''Aerodrome'', l_router = AERODROME_ROUTER, pairAddress = pair,
                          hasLiquidity = True, l_fee = None, l_isStable = None\<rparr>)
           | (t2, None) \<Rightarrow>
               (case probePools c tokenAddr feeTiers of
                  (t3, Some (pool, tier)) \<Rightarrow>
                    (t1 @ t2 @ t3,
                     \<lparr>l_dex = ''Uniswap V3'', l_router = UNISWAP_V3_ROUTER, pairAddress = pool,
                      hasLiquidity = True, l_fee = Some tier, l_isStable = None\<rparr>)
                | (t3, None) \<Rightarrow>
                    (t1 @ t2 @ t3,
                     \<lparr>l_dex = ''None'', l_router = [], pairAddress = [],
                      hasLiquidity = False, l_fee = None, l_isStable = None\<rparr>))))"

section \<open>Native price cache\<close>

text \<open>
  The price is \<open>Number(answer) / 10 ** decimals\<close>; it is kept here as the exact quotient,
  of which the double the code holds is the rounding. The two are zero together (the
  feed's decimals fit in eight bits), and nothing below depends on the rounding.
  \<open>p_now\<close> is the clock read on entry, \<open>p_stamp\<close> the clock read when the cache is written.
\<close>

record PriceCache =
  price :: rat
  timestamp :: int

record feed =
  p_now :: int
  p_latestRoundData :: "string + int"
  p_feedDecimals :: "string + nat"
  p_stamp :: int

datatype feed_call = LatestRoundData | FeedDecimals

definition CACHE_TTL :: int where
  "CACHE_TTL = 30000"

definition cachedOrZero :: "PriceCache option \<Rightarrow> rat" where
  \<comment> \<open>\<open>_ethPriceCache?.price || 0\<close>\<close>
  "cachedOrZero cache = (case cache of None \<Rightarrow> 0 | Some e \<Rightarrow> if price e = 0 then 0 else price e)"

definition cacheFresh :: "PriceCache option \<Rightarrow> int \<Rightarrow> bool" where
  "cacheFresh cache now =
     (case cache of None \<Rightarrow> False | Some e \<Rightarrow> now - timestamp e < CACHE_TTL)"

definition fetchEthPrice :: "feed \<Rightarrow> PriceCache option \<Rightarrow> feed_call list \<times> PriceCache option \<times> rat" where
  "fetchEthPrice f cache =
     (if cacheFresh cache (p_now f) then ([], cache, (case cache of Some e \<Rightarrow> price e | None \<Rightarrow> 0))
      else
        (case p_latestRoundData f of
           Inl _ \<Rightarrow> ([LatestRoundData], cache, cachedOrZero cache)
         | Inr answer \<Rightarrow>
             (case p_feedDecimals f of
                Inl _ \<Rightarrow> ([LatestRoundData, FeedDecimals], cache, cachedOrZero cache)
              | Inr feedDecimals \<Rightarrow>
                  (let pr = of_int answer / 10 ^ feedDecimals
                   in ([LatestRoundData, FeedDecimals],
                       Some \<lparr>price = pr, timestamp = p_stamp f\<rparr>, pr)))))"

section \<open>Key custody and the wallet session\<close>

type_synonym localStorage = "string \<rightharpoonup> string"

definition STORAGE_KEY :: string where
  "STORAGE_KEY = ''plt_encrypted_wallet''"

definition saveEncryptedKey :: "localStorage \<Rightarrow> string \<Rightarrow> localStorage" where
  "saveEncryptedKey ls encrypted = ls(STORAGE_KEY \<mapsto> encrypted)"

definition loadEncryptedKey :: "localStorage \<Rightarrow> string option" where
  "loadEncryptedKey ls = ls STORAGE_KEY"

definition clearStoredKey :: "localStorage \<Rightarrow> localStorage" where
  "clearStoredKey ls = ls(STORAGE_KEY := None)"

definition hasStoredKey :: "localStorage \<Rightarrow> bool" where
  \<comment> \<open>\<open>!!localStorage.getItem(STORAGE_KEY)\<close>: an empty string is falsy\<close>
  "hasStoredKey ls = (case ls STORAGE_KEY of None \<Rightarrow> False | Some v \<Rightarrow> v \<noteq> [])"

text \<open>
  What the browser and ethers supply: base64 in both directions (\<open>btoa\<close> of the bytes
  as a binary string, \<open>atob\<close> back to bytes), PBKDF2 and AES-GCM of Web Crypto, the text
  encoder and decoder, the address of a signing key, and the balance snapshot shown after a
  successful unlock (balance, its fiat rendering, the native price).
\<close>

record 'k externals =
  x_atob :: "string \<Rightarrow> string + nat list"
  x_btoa :: "nat list \<Rightarrow> string"
  x_deriveKey :: "string \<Rightarrow> nat list \<Rightarrow> 'k"
  x_encrypt :: "'k \<Rightarrow> nat list \<Rightarrow> nat list \<Rightarrow> string + nat list"
  x_decrypt :: "'k \<Rightarrow> nat list \<Rightarrow> nat list \<Rightarrow> string + nat list"
  x_encode :: "string \<Rightarrow> nat list"
  x_decode :: "nat list \<Rightarrow> string"
  x_walletAddress :: "string \<Rightarrow> string + address"
  x_snapshot :: "address \<Rightarrow> string + (string \<times> string \<times> rat)"

text \<open>
  The generator behind \<open>crypto.getRandomValues\<close> is the sequence \<open>rnd\<close> of the bytes it
  yields, and \<open>pos\<close> counts the bytes drawn so far: filling an array of \<open>n\<close> bytes reads the
  positions \<open>pos, ..., pos + n - 1\<close> and moves on, so no position is read twice.
\<close>

datatype draw = GetRandomValues nat

definition getRandomValues :: "(nat \<Rightarrow> nat) \<Rightarrow> nat \<Rightarrow> nat \<Rightarrow> nat list \<times> nat" where
  "getRandomValues rnd n pos = (map rnd [pos..<pos + n], pos + n)"

definition encryptKey ::
  "'k externals \<Rightarrow> (nat \<Rightarrow> nat) \<Rightarrow> nat \<Rightarrow> string \<Rightarrow> string \<Rightarrow>
     draw list \<times> (string + string) \<times> nat" where
  \<comment> \<open>the draws made, the blob or the rejection, and the generator's new position\<close>
  "encryptKey x rnd pos privateKey password =
     (let (salt, pos1) = getRandomValues rnd 16 pos;
          (iv, pos2) = getRandomValues rnd 12 pos1;
          key = x_deriveKey x password salt
      in ([GetRandomValues 16, GetRandomValues 12],
          (case x_encrypt x key iv (x_encode x privateKey) of
             Inl m \<Rightarrow> Inl m
           | Inr encrypted \<Rightarrow> Inr (x_btoa x (salt @ iv @ encrypted))),
          pos2))"

definition decryptKey :: "'k externals \<Rightarrow> string \<Rightarrow> string \<Rightarrow> string + string" where
  "decryptKey x encryptedB64 password =
     (case x_atob x encryptedB64 of
        Inl m \<Rightarrow> Inl m
      | Inr combined \<Rightarrow>
          (let salt = take 16 combined;
               iv = take 12 (drop 16 combined);
               ciphertext = drop 28 combined;
               key = x_deriveKey x password salt
           in case x_decrypt x key iv ciphertext of
                Inl m \<Rightarrow> Inl m
              | Inr decrypted \<Rightarrow> Inr (x_decode x decrypted)))"

definition isSpace :: "char \<Rightarrow> bool" where
  \<comment> \<open>the ASCII part of what \<open>String.prototype.trim\<close> strips; the Unicode white
      space it also strips is not in an 8-bit \<open>char\<close>\<close>
  "isSpace ch = (ch \<in> set [CHR '' '', CHR 0x09, CHR 0x0A, CHR 0x0B, CHR 0x0C, CHR 0x0D])"

definition trim :: "string \<Rightarrow> string" where
  "trim s = rev (dropWhile isSpace (rev (dropWhile isSpace s)))"

definition isHexDigit :: "char \<Rightarrow> bool" where
  "isHexDigit ch = (ch \<in> set ''0123456789abcdefABCDEF'')"

definition connectHotWallet :: "'k externals \<Rightarrow> string \<Rightarrow> string + (string \<times> address)" where
  \<comment> \<open>the wallet is the normalised key with its derived address\<close>
  "connectHotWallet x privateKey =
     (let key0 = trim privateKey;
          key = (if take 2 key0 = ''0x'' then key0 else ''0x'' @ key0)
      in if \<not> (take 2 key = ''0x'' \<and> length (drop 2 key) = 64 \<and> list_all isHexDigit (drop 2 key))
         then Inl ''Invalid private key format''
         else (case x_walletAddress x key of
                 Inl m \<Rightarrow> Inl m
               | Inr a \<Rightarrow> Inr (key, a)))"

definition shortenAddress :: "string \<Rightarrow> string" where
  \<comment> \<open>\<open>addr.slice(0, 6) + "..." + addr.slice(-4)\<close>\<close>
  "shortenAddress addr = take 6 addr @ ''...'' @ drop (length addr - 4) addr"

record WalletState =
  ws_wallet :: "(string \<times> address) option"
  ws_address :: string
  shortAddress :: string
  balance :: string
  balanceUsd :: string
  ethPrice :: rat
  isConnected :: bool
  isLoading :: bool
  hasStored :: bool

record app =
  storage :: localStorage
  state :: WalletState

definition unlock :: "'k externals \<Rightarrow> app \<Rightarrow> string \<Rightarrow> app \<times> (error + unit)" where
  "unlock x a password =
     (let attempt =
            (case loadEncryptedKey (storage a) of
               None \<Rightarrow> Inl ''No stored wallet''
             | Some encrypted \<Rightarrow>
                 if encrypted = [] then Inl ''No stored wallet''
                 else (case decryptKey x encrypted password of
                         Inl m \<Rightarrow> Inl m
                       | Inr privateKey \<Rightarrow>
                           (case connectHotWallet x privateKey of
                              Inl m \<Rightarrow> Inl m
                            | Inr w \<Rightarrow>
                                (case x_snapshot x (snd w) of
                                   Inl m \<Rightarrow> Inl m
                                 | Inr (bal, balUsd, ethp) \<Rightarrow>
                                     Inr \<lparr>ws_wallet = Some w, ws_address = snd w,
                                          shortAddress = shortenAddress (snd w),
                                          balance = bal, balanceUsd = balUsd, ethPrice = ethp,
                                          isConnected = True, isLoading = False,
                                          hasStored = True\<rparr>))))
      in case attempt of
           Inl m \<Rightarrow> (a\<lparr>state := (state a)\<lparr>isLoading := False\<rparr>\<rparr>, Inl (Error m))
         | Inr st \<Rightarrow> (a\<lparr>state := st\<rparr>, Inr ()))"

definition disconnect :: "app \<Rightarrow> app" where
  "disconnect a =
     \<lparr>storage = clearStoredKey (storage a),
      state = \<lparr>ws_wallet = None, ws_address = [], shortAddress = [],
               balance = ''0.0000'', balanceUsd = ''$0.00'', ethPrice = 0,
               isConnected = False, isLoading = False, hasStored = False\<rparr>\<rparr>"

section \<open>Reading a trace\<close>

text \<open>
  Projections used to state properties of a run: the gas limit and the answer of the
  submitted swap, the minimum output and the input amount a swap call carries, and the
  calls that belong to the swap stage (quote, simulation, submission).
\<close>

definition gasLimitOf :: "world \<Rightarrow> bigint" where
  "gasLimitOf w =
     (case w_estimateGas w of Inr estimated \<Rightarrow> (estimated * 130) sdiv 100 | Inl _ \<Rightarrow> 300000)"

definition sent :: "world \<Rightarrow> error + txhash" where
  "sent w = (case w_sendSwap w of Inl m \<Rightarrow> Inl (Error m) | Inr h \<Rightarrow> Inr h)"

fun minOutOf :: "swapcall \<Rightarrow> bigint" where
  "minOutOf (ExactInputSingle tin tout f rcp ain amin spl) = amin"
| "minOutOf (SwapExactETHForTokens amin pth rcp dl) = amin"
| "minOutOf (SwapExactTokensForETH ain amin pth rcp dl) = amin"

fun amountInOf :: "swapcall \<Rightarrow> bigint option" where
  "amountInOf (ExactInputSingle tin tout f rcp ain amin spl) = Some ain"
| "amountInOf (SwapExactETHForTokens amin pth rcp dl) = None"
| "amountInOf (SwapExactTokensForETH ain amin pth rcp dl) = Some ain"

fun swapOf :: "call \<Rightarrow> swapcall option" where
  "swapOf (EstimateGas r sc v) = Some sc"
| "swapOf (SendSwap r sc v g mf mp) = Some sc"
| "swapOf _ = None"

fun sellAmountOf :: "call \<Rightarrow> bigint option" where
  "sellAmountOf (GetAmountsOut r ain pth) = Some ain"
| "sellAmountOf (EstimateGas r sc v) = amountInOf sc"
| "sellAmountOf (SendSwap r sc v g mf mp) = amountInOf sc"
| "sellAmountOf _ = None"

fun isQuote :: "call \<Rightarrow> bool" where
  "isQuote (GetAmountsOut r ain pth) = True"
| "isQuote _ = False"

fun isSwapStage :: "call \<Rightarrow> bool" where
  "isSwapStage (GetAmountsOut r ain pth) = True"
| "isSwapStage (EstimateGas r sc v) = True"
| "isSwapStage (SendSwap r sc v g mf mp) = True"
| "isSwapStage _ = False"

definition sellPath :: "TradeParams \<Rightarrow> path" where
  "sellPath p =
     (if dex p = ''Aerodrome''
      then AeroRoutes [(tokenAddress p, WETH_BASE, stableOrFalse (isStable p))]
      else V2Path [tokenAddress p, WETH_BASE])"

definition sellZeroMsg :: "TradeParams \<Rightarrow> string" where
  "sellZeroMsg p =
     (if dex p = ''Aerodrome''
      then ''Cannot sell: Zero liquidity on Aerodrome. You will get 0 ETH.''
      else ''Cannot sell: Zero liquidity on Uniswap V2. You will get 0 ETH.'')"

definition buyPath :: "TradeParams \<Rightarrow> path" where
  "buyPath p =
     (if dex p = ''Aerodrome''
      then AeroRoutes [(WETH_BASE, tokenAddress p, stableOrFalse (isStable p))]
      else V2Path [WETH_BASE, tokenAddress p])"

definition buyZeroMsg :: "TradeParams \<Rightarrow> string" where
  "buyZeroMsg p =
     (if dex p = ''Aerodrome''
      then ''No liquidity available on Aerodrome for this token.''
      else ''No liquidity available on Uniswap V2 for this token.'')"

text \<open>
  The four forms a run of the executor takes: it stops before the swap stage, it simulates
  and submits without a quote, its quote is rethrown, or it quotes, simulates and submits.
\<close>

inductive swapShape :: "world \<Rightarrow> TradeParams \<Rightarrow> txhash io \<Rightarrow> bool" for w p where
  stopped:
    "\<forall>c\<in>set pre. \<not> isSwapStage c \<Longrightarrow> swapShape w p (pre, Inl e)"
| direct:
    "\<forall>c\<in>set pre. \<not> isSwapStage c \<Longrightarrow> dex p = ''Uniswap V3'' \<Longrightarrow> minOutOf sc = 0 \<Longrightarrow>
     swapShape w p
       (pre @ [EstimateGas (router p) sc v, SendSwap (router p) sc v (gasLimitOf w) mf mp],
        sent w)"
| rejected:
    "\<forall>c\<in>set pre. \<not> isSwapStage c \<Longrightarrow> dex p \<noteq> ''Uniswap V3'' \<Longrightarrow>
     snd (quoteMinOut w (router p) a pth (slippage p) z n) = Inl e \<Longrightarrow> sublist n z \<Longrightarrow>
     swapShape w p (pre @ [GetAmountsOut (router p) a pth], Inl e)"
| quoted:
    "\<forall>c\<in>set pre. \<not> isSwapStage c \<Longrightarrow> dex p \<noteq> ''Uniswap V3'' \<Longrightarrow>
     snd (quoteMinOut w (router p) a pth (slippage p) z n) = Inr (minOutOf sc) \<Longrightarrow>
     sublist n z \<Longrightarrow>
     swapShape w p
       (pre @ [GetAmountsOut (router p) a pth, EstimateGas (router p) sc v,
               SendSwap (router p) sc v (gasLimitOf w) mf mp],
        sent w)"

text \<open>A chain state and a request used to run the executor on concrete inputs.\<close>

definition demoToken :: address where
  "demoToken = ''0x1111111111111111111111111111111111111111''"

definition demoWallet :: address where
  "demoWallet = ''0x2222222222222222222222222222222222222222''"

definition demoRouter :: address where
  "demoRouter = ''0x3333333333333333333333333333333333333333''"

definition demoPool :: address where
  "demoPool = ''0x4444444444444444444444444444444444444444''"

definition demoWorld :: world where
  "demoWorld =
     \<lparr>w_now = 1700000000000,
      w_parseUnits = (\<lambda>s d. Inr 100000000000000000),
      w_feeData = Inr (Some 2000000, Some 1500000),
      w_decimals = Inr 18,
      w_balanceOf = Inr 5000,
      w_allowance = Inr 0,
      w_approve = Inr ''0xa1'',
      w_approveWait = Inr (),
      w_ethBalance = Inr 1000000000000000000,
      w_amountsOut = Inr [100000000000000000, 1000000],
      w_estimateGas = Inr 150000,
      w_sendSwap = Inr ''0xb2''\<rparr>"

definition demoTrade :: "string \<Rightarrow> int \<Rightarrow> TradeParams" where
  "demoTrade d s =
     \<lparr>tokenAddress = demoToken, amount = ''0.1'', slippage = Some s, wallet = demoWallet,
      dex = d, router = demoRouter, fee = None, isStable = None\<rparr>"

text \<open>A token whose only pool is an unfunded V3 pool at the 0.3% tier.\<close>

definition emptyPoolChain :: chain where
  "emptyPoolChain =
     \<lparr>c_getPair = (\<lambda>factory. Inr ZERO),
      c_wethBalanceOf = (\<lambda>a. Inr 0),
      c_getPool = (\<lambda>tier. if tier = 3000 then Inr demoPool else Inr ZERO)\<rparr>"

text \<open>A browser with a stored blob and an unrelated entry, and stand-ins for its services.\<close>

definition demoExternals :: "string externals" where
  \<comment> \<open>a cipher that appends the key to the message and checks it on the way back\<close>
  "demoExternals =
     \<lparr>x_atob = (\<lambda>s. Inr (map of_char s)),
      x_btoa = map char_of,
      x_deriveKey = (\<lambda>password salt. password @ map char_of salt),
      x_encrypt = (\<lambda>key iv message. Inr (message @ map of_char key)),
      x_decrypt = (\<lambda>key iv ciphertext.
         if length key \<le> length ciphertext \<and>
            drop (length ciphertext - length key) ciphertext = map of_char key
         then Inr (take (length ciphertext - length key) ciphertext)
         else Inl ''OperationError''),
      x_encode = map of_char,
      x_decode = map char_of,
      x_walletAddress = (\<lambda>key. Inr demoWallet),
      x_snapshot = (\<lambda>a. Inr (''1.000000'', ''$2.00K'', 2000))\<rparr>"

definition demoRandom :: "nat \<Rightarrow> nat" where
  "demoRandom i = (37 * i + 11) mod 256"

definition demoKey :: string where
  "demoKey = ''4c0883a69102937d6231471b5dbb6204fe5129617082792ae468d01a3f362318''"

definition demoApp :: app where
  "demoApp =
     \<lparr>storage = [STORAGE_KEY \<mapsto> ''c2FsdA=='', ''theme'' \<mapsto> ''dark''],
      state = \<lparr>ws_wallet = Some (''0xkey'', demoWallet), ws_address = demoWallet,
               shortAddress = demoWallet, balance = ''1.000000'', balanceUsd = ''$2.00K'',
               ethPrice = 2000, isConnected = True, isLoading = False, hasStored = True\<rparr>\<rparr>"

text \<open>A feed answering 2500.00000000 at a given time, and the entry it leaves.\<close>

definition demoFeed :: "int \<Rightarrow> string + int \<Rightarrow> feed" where
  "demoFeed now answer =
     \<lparr>p_now = now, p_latestRoundData = answer, p_feedDecimals = Inr 8, p_stamp = now + 200\<rparr>"

definition demoEntry :: PriceCache where
  "demoEntry = \<lparr>price = 2500, timestamp = 1000200\<rparr>"

section \<open>Sequencing lemmas\<close>

lemma andThen_alt:
  "andThen m f =
     (case snd m of Inl e \<Rightarrow> (fst m, Inl e) | Inr x \<Rightarrow> (fst m @ fst (f x), snd (f x)))"
  by (cases m) (auto simp: andThen_def split: sum.splits prod.splits)

lemma andThen_Inr: "andThen (t, Inr x) f = (t @ fst (f x), snd (f x))"
  by (simp add: andThen_def split: prod.splits)

lemma andThen_Inl: "andThen (t, Inl e) f = (t, Inl e)"
  by (simp add: andThen_def)

lemma fst_andThen:
  "fst (andThen m f) = (case snd m of Inl e \<Rightarrow> fst m | Inr x \<Rightarrow> fst m @ fst (f x))"
  by (simp add: andThen_alt split: sum.splits)

lemma snd_andThen:
  "snd (andThen m f) = (case snd m of Inl e \<Rightarrow> Inl e | Inr x \<Rightarrow> snd (f x))"
  by (simp add: andThen_alt split: sum.splits)

lemma all2_alt:
  "all2 m n =
     (fst m @ fst n,
      (case snd m of Inl e \<Rightarrow> Inl e
       | Inr x \<Rightarrow> (case snd n of Inl e \<Rightarrow> Inl e | Inr y \<Rightarrow> Inr (x, y))))"
  by (cases m; cases n) (auto simp: all2_def split: sum.splits)

lemmas io_simps = fst_andThen snd_andThen all2_alt ret_def throw_def lift_def request_def

lemma swapOf_stage: "swapOf c = Some sc \<Longrightarrow> isSwapStage c"
  by (cases c) simp_all

lemma isQuote_stage: "isQuote c \<Longrightarrow> isSwapStage c"
  by (cases c) simp_all

lemma sellAmountOf_stage: "sellAmountOf c = Some a \<Longrightarrow> isSwapStage c"
  by (cases c) simp_all

section \<open>The quote and the swap stage\<close>

lemma fst_quoteMinOut: "fst (quoteMinOut w r a pth s z n) = [GetAmountsOut r a pth]"
  by (simp add: quoteMinOut_def)

lemma swap_stage:
  "andThen (estimateGasWithBuffer w r sc v) (\<lambda>g. sendSwap w r sc v g gd) =
     ([EstimateGas r sc v,
       SendSwap r sc v (gasLimitOf w) (maxFeePerGas gd) (maxPriorityFeePerGas gd)], sent w)"
  by (simp add: andThen_def estimateGasWithBuffer_def sendSwap_def request_def gasLimitOf_def
      sent_def)

lemma quote_then_swap:
  "andThen (quoteMinOut w r a pth s z n)
     (\<lambda>m. andThen (estimateGasWithBuffer w r (mk m) v) (\<lambda>g. sendSwap w r (mk m) v g gd)) =
   (case snd (quoteMinOut w r a pth s z n) of
      Inl e \<Rightarrow> ([GetAmountsOut r a pth], Inl e)
    | Inr m \<Rightarrow>
        ([GetAmountsOut r a pth, EstimateGas r (mk m) v,
          SendSwap r (mk m) v (gasLimitOf w) (maxFeePerGas gd) (maxPriorityFeePerGas gd)],
         sent w))"
  by (simp add: andThen_alt [of "quoteMinOut w r a pth s z n"] fst_quoteMinOut swap_stage
      split: sum.splits)

lemma quote_positive:
  assumes "w_amountsOut w = Inr amounts" "1 < length amounts" "amounts ! 1 \<noteq> 0"
  shows "snd (quoteMinOut w r a pth (Some s) z n) = Inr ((amounts ! 1 * (100 - s)) sdiv 100)"
  using assms by (simp add: quoteMinOut_def amountsAt1_def toBigInt_def)

lemma quote_zero:
  assumes "w_amountsOut w = Inr amounts" "1 < length amounts" "amounts ! 1 = 0" "sublist n z"
  shows "snd (quoteMinOut w r a pth s z n) = Inl (Error z)"
  using assms by (simp add: quoteMinOut_def amountsAt1_def)

lemma buyZeroMsg_needle: "sublist ''No liquidity'' (buyZeroMsg p)"
  unfolding buyZeroMsg_def by (simp add: sublist_code prefix_code)

lemma sellZeroMsg_needle: "sublist ''Zero liquidity'' (sellZeroMsg p)"
  unfolding sellZeroMsg_def by (simp add: sublist_code prefix_code)

section \<open>Runs of the buy path\<close>

lemma executeBuy_early:
  "w_feeData w = Inl m \<Longrightarrow> executeBuy w p = ([GetFeeData], Inl (Error m))"
  "w_feeData w = Inr fd \<Longrightarrow> w_parseUnits w (amount p) 18 = Inl m \<Longrightarrow>
     executeBuy w p = ([GetFeeData], Inl (Error m))"
  by (simp_all add: executeBuy_def getGasData_def andThen_Inr andThen_Inl request_def lift_def
      ret_def)

lemma executeBuy_V3:
  "w_feeData w = Inr fd \<Longrightarrow> w_parseUnits w (amount p) 18 = Inr a \<Longrightarrow>
   dex p = ''Uniswap V3'' \<Longrightarrow>
   executeBuy w p =
     (let sc = ExactInputSingle WETH_BASE (tokenAddress p) (feeOrDefault (fee p)) (wallet p) a 0 0
      in ([GetFeeData, EstimateGas (router p) sc (Some a),
           SendSwap (router p) sc (Some a) (gasLimitOf w) (fst fd) 100000], sent w))"
  by (simp add: executeBuy_def getGasData_def swap_stage andThen_Inr andThen_Inl request_def
      lift_def ret_def Let_def)

lemma executeBuy_quoted:
  "w_feeData w = Inr fd \<Longrightarrow> w_parseUnits w (amount p) 18 = Inr a \<Longrightarrow>
   dex p \<noteq> ''Uniswap V3'' \<Longrightarrow>
   executeBuy w p =
     (case snd (quoteMinOut w (router p) a (buyPath p) (slippage p) (buyZeroMsg p)
                  ''No liquidity'') of
        Inl e \<Rightarrow> ([GetFeeData, GetAmountsOut (router p) a (buyPath p)], Inl e)
      | Inr m \<Rightarrow>
          (let sc = SwapExactETHForTokens m (buyPath p) (wallet p) (deadlineAt w)
           in ([GetFeeData, GetAmountsOut (router p) a (buyPath p),
                EstimateGas (router p) sc (Some a),
                SendSwap (router p) sc (Some a) (gasLimitOf w) (fst fd) 100000], sent w)))"
  by (simp add: executeBuy_def getGasData_def quote_then_swap andThen_Inr andThen_Inl request_def
      lift_def ret_def Let_def buyPath_def buyZeroMsg_def split: sum.splits)

lemma buy_shape: "swapShape w p (executeBuy w p)"
proof (cases "w_feeData w")
  case (Inl m)
  then show ?thesis
    by (simp add: executeBuy_early swapShape.stopped)
next
  case fd: (Inr fd)
  show ?thesis
  proof (cases "w_parseUnits w (amount p) 18")
    case (Inl m)
    with fd show ?thesis
      by (simp add: executeBuy_early swapShape.stopped)
  next
    case a: (Inr a)
    show ?thesis
    proof (cases "dex p = ''Uniswap V3''")
      case True
      let ?sc = "ExactInputSingle WETH_BASE (tokenAddress p) (feeOrDefault (fee p)) (wallet p)
                   a 0 0"
      have eq: "executeBuy w p =
          ([GetFeeData] @ [EstimateGas (router p) ?sc (Some a),
             SendSwap (router p) ?sc (Some a) (gasLimitOf w) (fst fd) 100000], sent w)"
        using executeBuy_V3 [OF fd a True] by (simp add: Let_def)
      show ?thesis
        unfolding eq by (rule swapShape.direct) (simp_all add: True)
    next
      case False
      let ?q = "snd (quoteMinOut w (router p) a (buyPath p) (slippage p) (buyZeroMsg p)
                       ''No liquidity'')"
      show ?thesis
      proof (cases ?q)
        case (Inl e)
        then have eq: "executeBuy w p =
            ([GetFeeData] @ [GetAmountsOut (router p) a (buyPath p)], Inl e)"
          using executeBuy_quoted [OF fd a False] by simp
        show ?thesis
          unfolding eq by (rule swapShape.rejected [OF _ False Inl buyZeroMsg_needle]) simp
      next
        case (Inr m)
        let ?sc = "SwapExactETHForTokens m (buyPath p) (wallet p) (deadlineAt w)"
        have eq: "executeBuy w p =
            ([GetFeeData] @ [GetAmountsOut (router p) a (buyPath p),
                EstimateGas (router p) ?sc (Some a),
                SendSwap (router p) ?sc (Some a) (gasLimitOf w) (fst fd) 100000], sent w)"
          using executeBuy_quoted [OF fd a False] Inr by (simp add: Let_def)
        have q: "?q = Inr (minOutOf ?sc)" using Inr by simp
        show ?thesis
          unfolding eq by (rule swapShape.quoted [OF _ False q buyZeroMsg_needle]) simp
      qed
    qed
  qed
qed

section \<open>Runs of the sell path\<close>

lemma sellPrepare_quiet: "c \<in> set (fst (sellPrepare w p)) \<Longrightarrow> \<not> isSwapStage c"
  by (auto simp: sellPrepare_def getGasData_def ensureApproval_def io_simps Let_def
      split: sum.splits option.splits prod.splits if_splits)

lemma sellPrepare_ok:
  "snd (sellPrepare w p) = Inr (gd, a) \<Longrightarrow>
     \<exists>fd d bal req b.
        w_feeData w = Inr fd \<and>
        gd = \<lparr>maxFeePerGas = fst fd, maxPriorityFeePerGas = 100000, gasPrice = snd fd\<rparr> \<and>
        w_decimals w = Inr d \<and> w_balanceOf w = Inr bal \<and>
        w_parseUnits w (amount p) d = Inr req \<and>
        a = (if req > bal then bal else req) \<and> a \<noteq> 0 \<and>
        w_ethBalance w = Inr b \<and> \<not> b < minGasNeeded"
  by (auto simp: sellPrepare_def getGasData_def ensureApproval_def io_simps Let_def
      split: sum.splits option.splits prod.splits if_splits)

lemma sellPrepare_low_gas:
  "w_ethBalance w = Inr b \<Longrightarrow> b < minGasNeeded \<Longrightarrow>
     GetBalance (wallet p) \<in> set (fst (sellPrepare w p)) \<Longrightarrow>
     snd (sellPrepare w p) = Inl (InsufficientEth b)"
  by (auto simp: sellPrepare_def getGasData_def ensureApproval_def io_simps Let_def
      split: sum.splits option.splits prod.splits if_splits)

lemma sellPrepare_no_balance:
  "w_feeData w = Inr fd \<Longrightarrow> w_decimals w = Inr d \<Longrightarrow> w_balanceOf w = Inr 0 \<Longrightarrow>
   w_parseUnits w (amount p) d = Inr req \<Longrightarrow> 0 \<le> req \<Longrightarrow>
   sellPrepare w p =
     ([GetFeeData, TokenDecimals (tokenAddress p), TokenBalanceOf (tokenAddress p) (wallet p)],
      Inl (Error ''No token balance to sell''))"
  by (simp add: sellPrepare_def getGasData_def andThen_def all2_def request_def lift_def ret_def
      throw_def)

lemma sellPrepare_approved_low_gas:
  assumes "w_feeData w = Inr fd" and "w_decimals w = Inr d" and "w_balanceOf w = Inr bal"
    and "w_parseUnits w (amount p) d = Inr req" and "(if bal < req then bal else req) \<noteq> 0"
    and "w_allowance w = Inr al" and "al < MaxUint256 sdiv 2"
    and "w_approve w = Inr tx" and "w_approveWait w = Inr ()"
    and "w_ethBalance w = Inr b" and "b < minGasNeeded"
  shows "sellPrepare w p =
     ([GetFeeData, TokenDecimals (tokenAddress p), TokenBalanceOf (tokenAddress p) (wallet p),
       Allowance (tokenAddress p) (wallet p) (router p),
       Approve (tokenAddress p) (router p) MaxUint256, WaitApproval tx, GetBalance (wallet p)],
      Inl (InsufficientEth b))"
  using assms
  by (simp add: sellPrepare_def getGasData_def ensureApproval_def andThen_Inr andThen_Inl
      all2_def request_def lift_def ret_def throw_def)

lemma sellSwap_V3:
  "dex p = ''Uniswap V3'' \<Longrightarrow>
   sellSwap w p gd a =
     (let sc = ExactInputSingle (tokenAddress p) WETH_BASE (feeOrDefault (fee p)) (wallet p) a 0 0
      in ([EstimateGas (router p) sc None,
           SendSwap (router p) sc None (gasLimitOf w) (maxFeePerGas gd) (maxPriorityFeePerGas gd)],
          sent w))"
  by (simp add: sellSwap_def swap_stage Let_def)

lemma sellSwap_quoted:
  "dex p \<noteq> ''Uniswap V3'' \<Longrightarrow>
   sellSwap w p gd a =
     (case snd (quoteMinOut w (router p) a (sellPath p) (slippage p) (sellZeroMsg p)
                  ''Zero liquidity'') of
        Inl e \<Rightarrow> ([GetAmountsOut (router p) a (sellPath p)], Inl e)
      | Inr m \<Rightarrow>
          (let sc = SwapExactTokensForETH a m (sellPath p) (wallet p) (deadlineAt w)
           in ([GetAmountsOut (router p) a (sellPath p), EstimateGas (router p) sc None,
                SendSwap (router p) sc None (gasLimitOf w) (maxFeePerGas gd)
                  (maxPriorityFeePerGas gd)],
               sent w)))"
  by (simp add: sellSwap_def quote_then_swap sellPath_def sellZeroMsg_def Let_def
      split: sum.splits)

lemma sellSwap_amount: "c \<in> set (fst (sellSwap w p gd a)) \<Longrightarrow> sellAmountOf c = Some a"
  by (cases "dex p = ''Uniswap V3''")
     (auto simp: sellSwap_V3 sellSwap_quoted Let_def split: sum.splits)

lemma sellSwap_parse_free:
  "sellSwap (w\<lparr>w_parseUnits := f\<rparr>) p gd a = sellSwap w p gd a"
  by (simp add: sellSwap_def quoteMinOut_def estimateGasWithBuffer_def sendSwap_def
      deadlineAt_def)

lemma ensureApproval_parse_free:
  "ensureApproval (w\<lparr>w_parseUnits := f\<rparr>) token spender owner =
     ensureApproval w token spender owner"
  by (simp add: ensureApproval_def cong: if_cong)

lemma sellPrepare_of_balance:
  assumes "w_decimals w = Inr d" and "w_balanceOf w = Inr bal"
    and "w_parseUnits w (amount p) d = Inr req" and "bal < req"
  shows "sellPrepare (w\<lparr>w_parseUnits := (\<lambda>s n. Inr bal)\<rparr>) p = sellPrepare w p"
proof (cases "w_feeData w")
  case (Inl m)
  then show ?thesis
    by (simp add: sellPrepare_def getGasData_def andThen_Inl request_def)
next
  case (Inr fd)
  with assms show ?thesis
    by (simp add: sellPrepare_def getGasData_def ensureApproval_parse_free andThen_Inr
        andThen_Inl all2_def request_def lift_def ret_def cong: option.case_cong)
qed

lemma executeSell_of_balance:
  assumes "w_decimals w = Inr d" and "w_balanceOf w = Inr bal"
    and "w_parseUnits w (amount p) d = Inr req" and "bal < req"
  shows "executeSell w p = executeSell (w\<lparr>w_parseUnits := (\<lambda>s n. Inr bal)\<rparr>) p"
  by (simp add: executeSell_def sellPrepare_of_balance [OF assms] sellSwap_parse_free)

lemma sellPrepare_reaches_allowance:
  assumes "w_feeData w = Inr fd" and "w_decimals w = Inr d" and "w_balanceOf w = Inr bal"
    and "w_parseUnits w (amount p) d = Inr req" and "bal < req" and "bal \<noteq> 0"
  shows "\<exists>rest. fst (sellPrepare w p) =
           [GetFeeData, TokenDecimals (tokenAddress p), TokenBalanceOf (tokenAddress p) (wallet p),
            Allowance (tokenAddress p) (wallet p) (router p)] @ rest"
  using assms
  by (simp add: sellPrepare_def getGasData_def ensureApproval_def fst_andThen snd_andThen
      all2_alt request_def lift_def ret_def split: sum.splits)

lemma sell_shape: "swapShape w p (executeSell w p)"
proof (cases "snd (sellPrepare w p)")
  case (Inl e)
  then have eq: "executeSell w p = (fst (sellPrepare w p), Inl e)"
    by (simp add: executeSell_def andThen_alt)
  show ?thesis
    unfolding eq by (rule swapShape.stopped) (simp add: sellPrepare_quiet)
next
  case (Inr ga)
  obtain gd a where ga: "ga = (gd, a)" by (cases ga)
  have eq: "executeSell w p =
      (fst (sellPrepare w p) @ fst (sellSwap w p gd a), snd (sellSwap w p gd a))"
    using Inr ga by (simp add: executeSell_def andThen_alt)
  have quiet: "\<forall>c\<in>set (fst (sellPrepare w p)). \<not> isSwapStage c"
    by (simp add: sellPrepare_quiet)
  show ?thesis
  proof (cases "dex p = ''Uniswap V3''")
    case True
    let ?sc = "ExactInputSingle (tokenAddress p) WETH_BASE (feeOrDefault (fee p)) (wallet p)
                 a 0 0"
    have sw: "sellSwap w p gd a =
        ([EstimateGas (router p) ?sc None,
          SendSwap (router p) ?sc None (gasLimitOf w) (maxFeePerGas gd)
            (maxPriorityFeePerGas gd)],
         sent w)"
      using sellSwap_V3 [OF True] by (simp add: Let_def)
    show ?thesis
      unfolding eq sw fst_conv snd_conv by (rule swapShape.direct [OF quiet True]) simp
  next
    case False
    let ?q = "snd (quoteMinOut w (router p) a (sellPath p) (slippage p) (sellZeroMsg p)
                     ''Zero liquidity'')"
    show ?thesis
    proof (cases ?q)
      case (Inl e)
      then have sw: "sellSwap w p gd a = ([GetAmountsOut (router p) a (sellPath p)], Inl e)"
        using sellSwap_quoted [OF False] by simp
      show ?thesis
        unfolding eq sw fst_conv snd_conv
        by (rule swapShape.rejected [OF quiet False Inl sellZeroMsg_needle])
    next
      case (Inr m)
      let ?sc = "SwapExactTokensForETH a m (sellPath p) (wallet p) (deadlineAt w)"
      have sw: "sellSwap w p gd a =
          ([GetAmountsOut (router p) a (sellPath p), EstimateGas (router p) ?sc None,
            SendSwap (router p) ?sc None (gasLimitOf w) (maxFeePerGas gd)
              (maxPriorityFeePerGas gd)], sent w)"
        using sellSwap_quoted [OF False] Inr by (simp add: Let_def)
      have q: "?q = Inr (minOutOf ?sc)" using Inr by simp
      show ?thesis
        unfolding eq sw fst_conv snd_conv
        by (rule swapShape.quoted [OF quiet False q sellZeroMsg_needle])
    qed
  qed
qed

lemma run_shape:
  "run = executeBuy w p \<or> run = executeSell w p \<Longrightarrow> swapShape w p run"
  using buy_shape sell_shape by auto

section \<open>Properties of the liquidity scan\<close>

text \<open>
  The scan starts with the V2 factory; a V2 or Aerodrome route is returned only for a pair
  whose balance of the wrapped native asset was read and found positive; a V3 route is
  returned after both pair probes came back empty, and the V3 loop reads no balance.
\<close>

lemma probePair_funded:
  "probePair c factory t = (tr, Some pair) \<Longrightarrow>
     pair \<noteq> ZERO \<and> (\<exists>bal. c_wethBalanceOf c pair = Inr bal \<and> 0 < bal)"
  by (auto simp: probePair_def split: sum.splits if_splits)

lemma probePair_first:
  "\<exists>rest. fst (probePair c factory t) = GetPair factory t WETH_BASE # rest"
  by (auto simp: probePair_def split: sum.splits if_splits)

lemma v2_style_route_is_funded:
  assumes "l_dex (snd (checkLiquidityFast c t)) = ''Uniswap V2'' \<or>
           l_dex (snd (checkLiquidityFast c t)) = ''Aerodrome''"
  shows "hasLiquidity (snd (checkLiquidityFast c t)) \<and>
         pairAddress (snd (checkLiquidityFast c t)) \<noteq> ZERO \<and>
         (\<exists>bal. c_wethBalanceOf c (pairAddress (snd (checkLiquidityFast c t))) = Inr bal \<and>
                0 < bal)"
  using assms
  by (auto simp: checkLiquidityFast_def split: prod.splits option.splits
      dest: probePair_funded)

lemma scan_starts_with_v2:
  "\<exists>rest. fst (checkLiquidityFast c t) = GetPair UNISWAP_V2_FACTORY t WETH_BASE # rest"
  using probePair_first [of c UNISWAP_V2_FACTORY t]
  by (auto simp: checkLiquidityFast_def split: prod.splits option.splits)

lemma v3_route_after_both_pairs:
  assumes "l_dex (snd (checkLiquidityFast c t)) = ''Uniswap V3''"
  shows "\<exists>t1 t2 t3 tier.
           fst (checkLiquidityFast c t) = t1 @ t2 @ t3 \<and>
           probePair c UNISWAP_V2_FACTORY t = (t1, None) \<and>
           probePair c AERODROME_FACTORY t = (t2, None) \<and>
           probePools c t feeTiers = (t3, Some (pairAddress (snd (checkLiquidityFast c t)), tier))"
  using assms
  by (auto simp: checkLiquidityFast_def split: prod.splits option.splits)

lemma probePools_reads_no_balance: "WethBalanceOf a \<notin> set (fst (probePools c t tiers))"
  by (induction tiers) (auto split: sum.splits prod.splits)

text \<open>
  Claim C1. The resolver is to return a family only when its pool holds a strictly
  positive balance of the wrapped native asset. The V2 and Aerodrome probes read that
  balance; the V3 loop returns as soon as \<open>getPool\<close> answers a non-zero address. For a
  token whose only pool is an unfunded V3 pool the scan reads no balance of that pool and
  reports \<open>hasLiquidity = True\<close>.
\<close>

theorem unfunded_v3_pool_reported_liquid:
  "c_wethBalanceOf emptyPoolChain demoPool = Inr 0 \<and>
   checkLiquidityFast emptyPoolChain demoToken =
     ([GetPair UNISWAP_V2_FACTORY demoToken WETH_BASE, GetPair AERODROME_FACTORY demoToken WETH_BASE,
       GetPool UNISWAP_V3_FACTORY demoToken WETH_BASE 3000],
      \<lparr>l_dex = ''Uniswap V3'', l_router = UNISWAP_V3_ROUTER, pairAddress = demoPool,
       hasLiquidity = True, l_fee = Some 3000, l_isStable = None\<rparr>)"
  by code_simp

section \<open>Trade execution\<close>

text \<open>
  Claim C2, as amended. On the sell path, when the native balance read by the executor is
  below the minimum gas reserve, the trade fails and no quote, gas simulation or swap is
  attempted; once the balance has been read the failure is the insufficient-gas error.
  The balance is read after the fee data, the token reads, the allowance read and the
  approval, so these calls precede the check.
\<close>

theorem low_gas_stops_before_swap:
  assumes "w_ethBalance w = Inr b" and "b < minGasNeeded"
  shows "(\<forall>c\<in>set (fst (executeSell w p)). \<not> isSwapStage c) \<and>
         (\<exists>e. snd (executeSell w p) = Inl e) \<and>
         (GetBalance (wallet p) \<in> set (fst (executeSell w p)) \<longrightarrow>
            snd (executeSell w p) = Inl (InsufficientEth b)) \<and>
         (w_feeData w = Inr fd \<and> w_decimals w = Inr d \<and> w_balanceOf w = Inr bal \<and>
          w_parseUnits w (amount p) d = Inr req \<and> (if bal < req then bal else req) \<noteq> 0 \<and>
          w_allowance w = Inr al \<and> al < MaxUint256 sdiv 2 \<and>
          w_approve w = Inr tx \<and> w_approveWait w = Inr () \<longrightarrow>
            executeSell w p =
              ([GetFeeData, TokenDecimals (tokenAddress p),
                TokenBalanceOf (tokenAddress p) (wallet p),
                Allowance (tokenAddress p) (wallet p) (router p),
                Approve (tokenAddress p) (router p) MaxUint256, WaitApproval tx,
                GetBalance (wallet p)],
               Inl (InsufficientEth b)))"
proof -
  have "\<exists>e. snd (sellPrepare w p) = Inl e"
  proof (cases "snd (sellPrepare w p)")
    case (Inl e)
    then show ?thesis by blast
  next
    case (Inr ga)
    then have "snd (sellPrepare w p) = Inr (fst ga, snd ga)" by simp
    from sellPrepare_ok [OF this] assms show ?thesis by auto
  qed
  then obtain e where e: "snd (sellPrepare w p) = Inl e" ..
  then have eq: "executeSell w p = (fst (sellPrepare w p), Inl e)"
    by (simp add: executeSell_def andThen_alt)
  have stage: "(\<forall>c\<in>set (fst (executeSell w p)). \<not> isSwapStage c) \<and>
      (\<exists>e. snd (executeSell w p) = Inl e) \<and>
      (GetBalance (wallet p) \<in> set (fst (executeSell w p)) \<longrightarrow>
         snd (executeSell w p) = Inl (InsufficientEth b))"
    unfolding eq using sellPrepare_quiet [of _ w p] sellPrepare_low_gas [OF assms, of p] e
    by auto
  have order: "executeSell w p =
      ([GetFeeData, TokenDecimals (tokenAddress p), TokenBalanceOf (tokenAddress p) (wallet p),
        Allowance (tokenAddress p) (wallet p) (router p),
        Approve (tokenAddress p) (router p) MaxUint256, WaitApproval tx, GetBalance (wallet p)],
       Inl (InsufficientEth b))"
    if "w_feeData w = Inr fd" "w_decimals w = Inr d" "w_balanceOf w = Inr bal"
      "w_parseUnits w (amount p) d = Inr req" "(if bal < req then bal else req) \<noteq> 0"
      "w_allowance w = Inr al" "al < MaxUint256 sdiv 2"
      "w_approve w = Inr tx" "w_approveWait w = Inr ()"
    using sellPrepare_approved_low_gas [OF that assms]
    by (simp add: executeSell_def andThen_Inl)
  from stage order show ?thesis by blast
qed

theorem low_gas_stops_before_swap_witness:
  "w_ethBalance (demoWorld\<lparr>w_ethBalance := Inr 999999999999\<rparr>) = Inr 999999999999 \<and>
   999999999999 < minGasNeeded \<and>
   GetBalance demoWallet
     \<in> set (fst (executeSell (demoWorld\<lparr>w_ethBalance := Inr 999999999999\<rparr>)
                   (demoTrade ''Aerodrome'' 15))) \<and>
   snd (executeSell (demoWorld\<lparr>w_ethBalance := Inr 999999999999\<rparr>) (demoTrade ''Aerodrome'' 15)) =
     Inl (InsufficientEth 999999999999) \<and>
   list_all (\<lambda>c. \<not> isSwapStage c)
     (fst (executeSell (demoWorld\<lparr>w_ethBalance := Inr 999999999999\<rparr>)
             (demoTrade ''Aerodrome'' 15))) \<and>
   executeSell (demoWorld\<lparr>w_ethBalance := Inr 999999999999\<rparr>) (demoTrade ''Aerodrome'' 15) =
     ([GetFeeData, TokenDecimals demoToken, TokenBalanceOf demoToken demoWallet,
       Allowance demoToken demoWallet demoRouter, Approve demoToken demoRouter MaxUint256,
       WaitApproval ''0xa1'', GetBalance demoWallet],
      Inl (InsufficientEth 999999999999))"
proof -
  let ?w = "demoWorld\<lparr>w_ethBalance := Inr 999999999999\<rparr>"
  let ?p = "demoTrade ''Aerodrome'' 15"
  have b: "w_ethBalance ?w = Inr 999999999999" by simp
  have low: "999999999999 < minGasNeeded" by (simp add: minGasNeeded_def)
  have reached: "GetBalance (wallet ?p) \<in> set (fst (executeSell ?w ?p))" by code_simp
  have p: "wallet ?p = demoWallet" "tokenAddress ?p = demoToken" "router ?p = demoRouter"
    by (simp_all add: demoTrade_def)
  have pre: "w_feeData ?w = Inr (Some 2000000, Some 1500000) \<and> w_decimals ?w = Inr 18 \<and>
      w_balanceOf ?w = Inr 5000 \<and> w_parseUnits ?w (amount ?p) 18 = Inr 100000000000000000 \<and>
      (if (5000 :: int) < 100000000000000000 then 5000 else 100000000000000000) \<noteq> (0 :: int) \<and>
      w_allowance ?w = Inr 0 \<and> 0 < MaxUint256 sdiv 2 \<and>
      w_approve ?w = Inr ''0xa1'' \<and> w_approveWait ?w = Inr ()"
    by (simp add: demoWorld_def MaxUint256_def signed_divide_int_def)
  note t = low_gas_stops_before_swap [OF b low, where p = ?p
      and fd = "(Some 2000000, Some 1500000)" and d = 18 and bal = 5000
      and req = 100000000000000000 and al = 0 and tx = "''0xa1''"]
  have quiet: "list_all (\<lambda>c. \<not> isSwapStage c) (fst (executeSell ?w ?p))"
    using t by (simp add: list_all_iff)
  have failed: "snd (executeSell ?w ?p) = Inl (InsufficientEth 999999999999)"
    using t reached by blast
  have run: "executeSell ?w ?p =
      ([GetFeeData, TokenDecimals (tokenAddress ?p), TokenBalanceOf (tokenAddress ?p) (wallet ?p),
        Allowance (tokenAddress ?p) (wallet ?p) (router ?p),
        Approve (tokenAddress ?p) (router ?p) MaxUint256, WaitApproval ''0xa1'',
        GetBalance (wallet ?p)],
       Inl (InsufficientEth 999999999999))"
    using t pre by blast
  show ?thesis
    using b low reached quiet failed run unfolding p by (intro conjI)
qed

text \<open>
  The claim as first stated asks for the failure before any contract call: here the balance
  is zero, and an approval transaction has been sent and awaited before the check.
\<close>

theorem approval_precedes_gas_check:
  "w_ethBalance (demoWorld\<lparr>w_ethBalance := Inr 0\<rparr>) = Inr 0 \<and> 0 < minGasNeeded \<and>
   executeSell (demoWorld\<lparr>w_ethBalance := Inr 0\<rparr>) (demoTrade ''Uniswap V2'' 15) =
     ([GetFeeData, TokenDecimals demoToken, TokenBalanceOf demoToken demoWallet,
       Allowance demoToken demoWallet demoRouter, Approve demoToken demoRouter MaxUint256,
       WaitApproval ''0xa1'', GetBalance demoWallet],
      Inl (InsufficientEth 0))"
  by code_simp

text \<open>
  On the routes that quote (V2 and Aerodrome), a zero quote ends the run with the error
  thrown in the try block, and no swap is simulated or submitted.
\<close>

lemma zero_quote_rejected:
  assumes "run = executeBuy w p \<or> run = executeSell w p"
    and "\<exists>c\<in>set (fst run). isQuote c"
    and "w_amountsOut w = Inr amounts" and "1 < length amounts" and "amounts ! 1 = 0"
  shows "(\<exists>z. snd run = Inl (Error z)) \<and> (\<forall>c\<in>set (fst run). swapOf c = None)"
proof -
  have "swapShape w p run" using assms(1) by (rule run_shape)
  then show ?thesis
  proof cases
    case (stopped pre e)
    with assms(2) show ?thesis by (auto dest: isQuote_stage)
  next
    case (direct pre sc v mf mp)
    with assms(2) show ?thesis by (auto dest: isQuote_stage)
  next
    case (rejected pre a pth z n e)
    have "swapOf c = None" if "c \<in> set pre" for c
      using that rejected(2) swapOf_stage [of c] by (cases "swapOf c") auto
    with rejected quote_zero [OF assms(3-5) rejected(5)] show ?thesis by auto
  next
    case (quoted pre a pth z n sc v mf mp)
    with quote_zero [OF assms(3-5) quoted(5)] show ?thesis by simp
  qed
qed

text \<open>
  Claim C3. Every trade is to query the route's quote and fail on a zero quote. On a
  Uniswap V3 route neither \<open>executeBuy\<close> nor \<open>executeSell\<close> asks for a quote: the
  swap is simulated and submitted with a minimum output of zero, also where the V2-style
  quote of the same chain state would be zero.
\<close>

theorem v3_trades_skip_the_quote:
  "w_amountsOut (demoWorld\<lparr>w_amountsOut := Inr [100000000000000000, 0]\<rparr>) =
     Inr [100000000000000000, 0] \<and>
   executeBuy (demoWorld\<lparr>w_amountsOut := Inr [100000000000000000, 0]\<rparr>)
     (demoTrade ''Uniswap V3'' 15) =
     ([GetFeeData,
       EstimateGas demoRouter
         (ExactInputSingle WETH_BASE demoToken 3000 demoWallet 100000000000000000 0 0)
         (Some 100000000000000000),
       SendSwap demoRouter
         (ExactInputSingle WETH_BASE demoToken 3000 demoWallet 100000000000000000 0 0)
         (Some 100000000000000000) 195000 (Some 2000000) 100000],
      Inr ''0xb2'') \<and>
   executeSell (demoWorld\<lparr>w_amountsOut := Inr [100000000000000000, 0]\<rparr>)
     (demoTrade ''Uniswap V3'' 15) =
     ([GetFeeData, TokenDecimals demoToken, TokenBalanceOf demoToken demoWallet,
       Allowance demoToken demoWallet demoRouter, Approve demoToken demoRouter MaxUint256,
       WaitApproval ''0xa1'', GetBalance demoWallet,
       EstimateGas demoRouter (ExactInputSingle demoToken WETH_BASE 3000 demoWallet 5000 0 0) None,
       SendSwap demoRouter (ExactInputSingle demoToken WETH_BASE 3000 demoWallet 5000 0 0) None 195000
         (Some 2000000) 100000],
      Inr ''0xb2'')"
  by code_simp

text \<open>
  Claim C4, as amended. A requested sell amount above the wallet's token balance is
  silently clamped to that balance: the run is the run of a request for exactly the
  balance. With a non-zero balance it goes on to the allowance read, and the quote, the
  simulation and the swap carry the balance as their amount. With a balance of exactly
  zero and a non-negative request the sell fails with the error
  \<open>No token balance to sell\<close> right after the fee-data, decimals and balance reads, and
  no further call is made.
\<close>

theorem sell_amount_clamped:
  assumes "w_feeData w = Inr fd" and "w_decimals w = Inr d" and "w_balanceOf w = Inr bal"
    and "w_parseUnits w (amount p) d = Inr req"
  shows "(bal < req \<longrightarrow>
            executeSell w p = executeSell (w\<lparr>w_parseUnits := (\<lambda>s n. Inr bal)\<rparr>) p) \<and>
         (bal < req \<longrightarrow> bal \<noteq> 0 \<longrightarrow>
            (\<exists>rest. fst (executeSell w p) =
               [GetFeeData, TokenDecimals (tokenAddress p),
                TokenBalanceOf (tokenAddress p) (wallet p),
                Allowance (tokenAddress p) (wallet p) (router p)] @ rest)) \<and>
         (bal < req \<longrightarrow> bal \<noteq> 0 \<longrightarrow>
            (\<forall>c\<in>set (fst (executeSell w p)). \<forall>a. sellAmountOf c = Some a \<longrightarrow> a = bal)) \<and>
         (bal = 0 \<longrightarrow> 0 \<le> req \<longrightarrow>
            executeSell w p =
              ([GetFeeData, TokenDecimals (tokenAddress p),
                TokenBalanceOf (tokenAddress p) (wallet p)],
               Inl (Error ''No token balance to sell'')))"
proof (intro conjI impI)
  assume "bal < req"
  with assms(2-4) show "executeSell w p = executeSell (w\<lparr>w_parseUnits := (\<lambda>s n. Inr bal)\<rparr>) p"
    by (rule executeSell_of_balance)
next
  assume over: "bal < req" "bal \<noteq> 0"
  from sellPrepare_reaches_allowance [OF assms over] obtain rest where
    pre: "fst (sellPrepare w p) =
      [GetFeeData, TokenDecimals (tokenAddress p), TokenBalanceOf (tokenAddress p) (wallet p),
       Allowance (tokenAddress p) (wallet p) (router p)] @ rest" ..
  show "\<exists>rest. fst (executeSell w p) =
      [GetFeeData, TokenDecimals (tokenAddress p), TokenBalanceOf (tokenAddress p) (wallet p),
       Allowance (tokenAddress p) (wallet p) (router p)] @ rest"
  proof (cases "snd (sellPrepare w p)")
    case (Inl e)
    then have "fst (executeSell w p) = fst (sellPrepare w p)"
      by (simp add: executeSell_def andThen_alt)
    then show ?thesis
      by (intro exI [of _ rest]) (simp add: pre)
  next
    case (Inr ga)
    then obtain more where "fst (executeSell w p) = fst (sellPrepare w p) @ more"
      by (simp add: executeSell_def andThen_alt)
    then show ?thesis
      by (intro exI [of _ "rest @ more"]) (simp add: pre)
  qed
next
  assume "bal < req" "bal \<noteq> 0"
  show "\<forall>c\<in>set (fst (executeSell w p)). \<forall>a. sellAmountOf c = Some a \<longrightarrow> a = bal"
  proof (cases "snd (sellPrepare w p)")
    case (Inl e)
    then have "fst (executeSell w p) = fst (sellPrepare w p)"
      by (simp add: executeSell_def andThen_alt)
    then show ?thesis
      using sellPrepare_quiet [of _ w p] by (auto dest: sellAmountOf_stage)
  next
    case (Inr ga)
    obtain gd a where ga: "ga = (gd, a)" by (cases ga)
    with Inr have ok: "snd (sellPrepare w p) = Inr (gd, a)" by simp
    from sellPrepare_ok [OF ok] assms \<open>bal < req\<close> have a: "a = bal" by auto
    have "fst (executeSell w p) = fst (sellPrepare w p) @ fst (sellSwap w p gd bal)"
      using ok a by (simp add: executeSell_def andThen_alt)
    then show ?thesis
      using sellPrepare_quiet [of _ w p] sellSwap_amount [of _ w p gd bal]
      by (auto dest: sellAmountOf_stage)
  qed
next
  assume "bal = 0" "0 \<le> req"
  with assms show "executeSell w p =
      ([GetFeeData, TokenDecimals (tokenAddress p), TokenBalanceOf (tokenAddress p) (wallet p)],
       Inl (Error ''No token balance to sell''))"
    by (simp add: executeSell_def sellPrepare_no_balance andThen_Inl)
qed

theorem sell_amount_clamped_witness:
  "w_balanceOf demoWorld = Inr 5000 \<and>
   w_parseUnits demoWorld (amount (demoTrade ''Uniswap V2'' 15)) 18 = Inr 100000000000000000 \<and>
   (5000 :: int) < 100000000000000000 \<and>
   executeSell demoWorld (demoTrade ''Uniswap V2'' 15) =
     executeSell (demoWorld\<lparr>w_parseUnits := (\<lambda>s n. Inr 5000)\<rparr>) (demoTrade ''Uniswap V2'' 15) \<and>
   (\<exists>rest. fst (executeSell demoWorld (demoTrade ''Uniswap V2'' 15)) =
      [GetFeeData, TokenDecimals demoToken, TokenBalanceOf demoToken demoWallet,
       Allowance demoToken demoWallet demoRouter] @ rest) \<and>
   GetAmountsOut demoRouter 5000 (V2Path [demoToken, WETH_BASE])
     \<in> set (fst (executeSell demoWorld (demoTrade ''Uniswap V2'' 15))) \<and>
   snd (executeSell demoWorld (demoTrade ''Uniswap V2'' 15)) = Inr ''0xb2'' \<and>
   list_all (\<lambda>c. sellAmountOf c = None \<or> sellAmountOf c = Some 5000)
     (fst (executeSell demoWorld (demoTrade ''Uniswap V2'' 15))) \<and>
   executeSell (demoWorld\<lparr>w_balanceOf := Inr 0\<rparr>) (demoTrade ''Uniswap V2'' 15) =
     ([GetFeeData, TokenDecimals demoToken, TokenBalanceOf demoToken demoWallet],
      Inl (Error ''No token balance to sell''))"
proof -
  let ?p = "demoTrade ''Uniswap V2'' 15"
  let ?z = "demoWorld\<lparr>w_balanceOf := Inr 0\<rparr>"
  have w: "w_feeData demoWorld = Inr (Some 2000000, Some 1500000)" "w_decimals demoWorld = Inr 18"
    "w_balanceOf demoWorld = Inr 5000"
    "w_parseUnits demoWorld (amount ?p) 18 = Inr 100000000000000000"
    by (simp_all add: demoWorld_def)
  have z: "w_feeData ?z = Inr (Some 2000000, Some 1500000)" "w_decimals ?z = Inr 18"
    "w_balanceOf ?z = Inr 0" "w_parseUnits ?z (amount ?p) 18 = Inr 100000000000000000"
    by (simp_all add: demoWorld_def)
  have q: "GetAmountsOut demoRouter 5000 (V2Path [demoToken, WETH_BASE])
      \<in> set (fst (executeSell demoWorld ?p))"
    by code_simp
  have sold: "snd (executeSell demoWorld ?p) = Inr ''0xb2''"
    by code_simp
  have p: "tokenAddress ?p = demoToken" "wallet ?p = demoWallet" "router ?p = demoRouter"
    by (simp_all add: demoTrade_def)
  note t = sell_amount_clamped [OF w]
  note t' = sell_amount_clamped [OF z]
  have same: "executeSell demoWorld ?p =
      executeSell (demoWorld\<lparr>w_parseUnits := (\<lambda>s n. Inr 5000)\<rparr>) ?p"
    using conjunct1 [OF t] by simp
  have onward: "\<exists>rest. fst (executeSell demoWorld ?p) =
      [GetFeeData, TokenDecimals demoToken, TokenBalanceOf demoToken demoWallet,
       Allowance demoToken demoWallet demoRouter] @ rest"
    using conjunct1 [OF conjunct2 [OF t]] unfolding p by simp
  have "\<forall>c\<in>set (fst (executeSell demoWorld ?p)). \<forall>a. sellAmountOf c = Some a \<longrightarrow> a = 5000"
    using conjunct1 [OF conjunct2 [OF conjunct2 [OF t]]] by simp
  then have clamp: "list_all (\<lambda>c. sellAmountOf c = None \<or> sellAmountOf c = Some 5000)
      (fst (executeSell demoWorld ?p))"
    unfolding list_all_iff by (metis option.exhaust)
  have zero: "executeSell ?z ?p =
      ([GetFeeData, TokenDecimals demoToken, TokenBalanceOf demoToken demoWallet],
       Inl (Error ''No token balance to sell''))"
    using conjunct2 [OF conjunct2 [OF conjunct2 [OF t']]] by (simp add: p)
  show ?thesis
    by (intro conjI) (fact w(3) w(4) same onward q sold clamp zero | simp)+
qed

text \<open>
  The claim as first stated says that a sell with a zero balance performs no network
  call: three reads have been issued when the error is raised.
\<close>

theorem zero_balance_sell_reads_chain:
  "w_balanceOf (demoWorld\<lparr>w_balanceOf := Inr 0\<rparr>) = Inr 0 \<and>
   fst (executeSell (demoWorld\<lparr>w_balanceOf := Inr 0\<rparr>) (demoTrade ''Uniswap V2'' 15)) =
     [GetFeeData, TokenDecimals demoToken, TokenBalanceOf demoToken demoWallet] \<and>
   fst (executeSell (demoWorld\<lparr>w_balanceOf := Inr 0\<rparr>) (demoTrade ''Uniswap V2'' 15)) \<noteq> []"
  by code_simp

text \<open>
  Claim C5. Whenever a quote is made and returns a non-zero output \<open>q\<close>, every swap
  call of the run carries the minimum output \<open>q * (100 - slippage) / 100\<close> in bigint
  arithmetic, and such a call is made. For a quote of 1,000,000 and a slippage of 15 the
  floor is 850,000 (see the instance below).
\<close>

theorem minimum_output_formula:
  assumes "run = executeBuy w p \<or> run = executeSell w p"
    and "\<exists>c\<in>set (fst run). isQuote c"
    and "w_amountsOut w = Inr amounts" and "1 < length amounts" and "amounts ! 1 \<noteq> 0"
    and "slippage p = Some s"
  shows "(\<exists>c\<in>set (fst run). swapOf c \<noteq> None) \<and>
         (\<forall>c\<in>set (fst run). \<forall>sc. swapOf c = Some sc \<longrightarrow>
            minOutOf sc = (amounts ! 1 * (100 - s)) sdiv 100)"
proof -
  have "swapShape w p run" using assms(1) by (rule run_shape)
  then show ?thesis
  proof cases
    case (stopped pre e)
    with assms(2) show ?thesis by (auto dest: isQuote_stage)
  next
    case (direct pre sc v mf mp)
    with assms(2) show ?thesis by (auto dest: isQuote_stage)
  next
    case (rejected pre a pth z n e)
    with quote_positive [OF assms(3-5)] assms(6) show ?thesis by simp
  next
    case (quoted pre a pth z n sc v mf mp)
    with quote_positive [OF assms(3-5)] assms(6) show ?thesis
      by (auto dest: swapOf_stage)
  qed
qed

theorem minimum_output_formula_witness:
  "(\<exists>c\<in>set (fst (executeBuy demoWorld (demoTrade ''Uniswap V2'' 15))). isQuote c) \<and>
   w_amountsOut demoWorld = Inr [100000000000000000, 1000000] \<and>
   slippage (demoTrade ''Uniswap V2'' 15) = Some 15 \<and>
   (\<exists>c\<in>set (fst (executeBuy demoWorld (demoTrade ''Uniswap V2'' 15))). swapOf c \<noteq> None) \<and>
   list_all (\<lambda>c. case swapOf c of None \<Rightarrow> True | Some sc \<Rightarrow> minOutOf sc = 850000)
     (fst (executeBuy demoWorld (demoTrade ''Uniswap V2'' 15)))"
proof -
  let ?p = "demoTrade ''Uniswap V2'' 15"
  let ?run = "executeBuy demoWorld ?p"
  have "GetAmountsOut demoRouter 100000000000000000 (V2Path [WETH_BASE, demoToken]) \<in> set (fst ?run)"
    by code_simp
  then have q: "\<exists>c\<in>set (fst ?run). isQuote c"
    by (rule bexI [rotated]) simp
  have a: "w_amountsOut demoWorld = Inr [100000000000000000, 1000000]"
    by (simp add: demoWorld_def)
  have s: "slippage ?p = Some 15" by (simp add: demoTrade_def)
  from minimum_output_formula [OF disjI1 [OF refl] q a _ _ s] q a s
  show ?thesis by (simp add: signed_divide_int_def list_all_iff split: option.splits)
qed

text \<open>
  Claim C7. The gas simulation is issued for the same contract, call arguments and value as
  the swap that follows it. The gas limit of the swap is the simulated amount times 130
  divided by 100 when the simulation answers, and 300000 when it fails; a simulation is
  always followed by the submission of the swap.
\<close>

theorem gas_limit_buffered:
  assumes "run = executeBuy w p \<or> run = executeSell w p"
  shows "(SendSwap r sc v g mf mp \<in> set (fst run) \<longrightarrow>
            EstimateGas r sc v \<in> set (fst run) \<and>
            (\<forall>estimated. w_estimateGas w = Inr estimated \<longrightarrow> g = (estimated * 130) sdiv 100) \<and>
            (\<forall>m. w_estimateGas w = Inl m \<longrightarrow> g = 300000)) \<and>
         (EstimateGas r sc v \<in> set (fst run) \<longrightarrow>
            (\<exists>g' mf' mp'. SendSwap r sc v g' mf' mp' \<in> set (fst run)))"
proof -
  have "swapShape w p run" using assms by (rule run_shape)
  then show ?thesis
    by cases (auto simp: gasLimitOf_def)
qed

theorem gas_limit_buffered_witness:
  "SendSwap demoRouter (SwapExactETHForTokens 850000 (V2Path [WETH_BASE, demoToken]) demoWallet 1700000300)
      (Some 100000000000000000) 195000 (Some 2000000) 100000
     \<in> set (fst (executeBuy demoWorld (demoTrade ''Uniswap V2'' 15))) \<and>
   EstimateGas demoRouter (SwapExactETHForTokens 850000 (V2Path [WETH_BASE, demoToken]) demoWallet 1700000300)
      (Some 100000000000000000)
     \<in> set (fst (executeBuy demoWorld (demoTrade ''Uniswap V2'' 15))) \<and>
   w_estimateGas demoWorld = Inr 150000 \<and> (150000 * 130) sdiv 100 = (195000 :: int) \<and>
   SendSwap demoRouter (ExactInputSingle demoToken WETH_BASE 3000 demoWallet 5000 0 0) None 300000
      (Some 2000000) 100000
     \<in> set (fst (executeSell (demoWorld\<lparr>w_estimateGas := Inl ''execution reverted''\<rparr>)
                    (demoTrade ''Uniswap V3'' 15)))"
proof -
  let ?buy = "executeBuy demoWorld (demoTrade ''Uniswap V2'' 15)"
  let ?sc = "SwapExactETHForTokens 850000 (V2Path [WETH_BASE, demoToken]) demoWallet 1700000300"
  let ?w = "demoWorld\<lparr>w_estimateGas := Inl ''execution reverted''\<rparr>"
  let ?sell = "executeSell ?w (demoTrade ''Uniswap V3'' 15)"
  let ?sc' = "ExactInputSingle demoToken WETH_BASE 3000 demoWallet 5000 0 0"
  have buy: "?buy =
      ([GetFeeData, GetAmountsOut demoRouter 100000000000000000 (V2Path [WETH_BASE, demoToken]),
        EstimateGas demoRouter ?sc (Some 100000000000000000),
        SendSwap demoRouter ?sc (Some 100000000000000000) 195000 (Some 2000000) 100000],
       Inr ''0xb2'')"
    by code_simp
  have sell: "?sell =
      ([GetFeeData, TokenDecimals demoToken, TokenBalanceOf demoToken demoWallet,
        Allowance demoToken demoWallet demoRouter, Approve demoToken demoRouter MaxUint256,
        WaitApproval ''0xa1'', GetBalance demoWallet, EstimateGas demoRouter ?sc' None,
        SendSwap demoRouter ?sc' None 300000 (Some 2000000) 100000],
       Inr ''0xb2'')"
    by code_simp
  have sent1: "SendSwap demoRouter ?sc (Some 100000000000000000) 195000 (Some 2000000) 100000
      \<in> set (fst ?buy)"
    unfolding buy by simp
  have est2: "EstimateGas demoRouter ?sc' None \<in> set (fst ?sell)"
    unfolding sell by simp
  have sent2: "SendSwap demoRouter ?sc' None 300000 (Some 2000000) 100000 \<in> set (fst ?sell)"
    unfolding sell by simp
  have w1: "w_estimateGas demoWorld = Inr 150000" by (simp add: demoWorld_def)
  have w2: "w_estimateGas ?w = Inl ''execution reverted''" by simp
  from gas_limit_buffered [OF disjI1 [OF refl], of "demoRouter" ?sc "Some 100000000000000000"
      195000 "Some 2000000" 100000 demoWorld "demoTrade ''Uniswap V2'' 15"]
    gas_limit_buffered [OF disjI2 [OF refl], of "demoRouter" ?sc' None 300000 "Some 2000000"
      100000 ?w "demoTrade ''Uniswap V3'' 15"]
    sent1 sent2 w1 w2
  show ?thesis by (simp add: signed_divide_int_def)
qed

text \<open>
  Claim C10. With a slippage of exactly 100 and a strictly positive quote, every swap call
  of the run carries a minimum output of zero, the swap is submitted, and the outcome of
  the run is that of the submission: the zero floor alone rejects nothing.
\<close>

theorem full_slippage_zero_floor:
  assumes "run = executeBuy w p \<or> run = executeSell w p"
    and "\<exists>c\<in>set (fst run). isQuote c"
    and "w_amountsOut w = Inr amounts" and "1 < length amounts" and "0 < amounts ! 1"
    and "slippage p = Some 100"
  shows "(\<forall>c\<in>set (fst run). \<forall>sc. swapOf c = Some sc \<longrightarrow> minOutOf sc = 0) \<and>
         (\<exists>r sc v g mf mp. SendSwap r sc v g mf mp \<in> set (fst run) \<and> minOutOf sc = 0) \<and>
         snd run = sent w"
proof -
  have nz: "amounts ! 1 \<noteq> 0" using assms(5) by simp
  have q: "snd (quoteMinOut w r a pth (Some 100) z n) = Inr 0" for r a pth z n
    using quote_positive [OF assms(3,4) nz, of r a pth 100 z n] by simp
  have "swapShape w p run" using assms(1) by (rule run_shape)
  then show ?thesis
  proof cases
    case (stopped pre e)
    with assms(2) show ?thesis by (auto dest: isQuote_stage)
  next
    case (direct pre sc v mf mp)
    with assms(2) show ?thesis by (auto dest: isQuote_stage)
  next
    case (rejected pre a pth z n e)
    with q assms(6) show ?thesis by simp
  next
    case (quoted pre a pth z n sc v mf mp)
    with q assms(6) have floor: "minOutOf sc = 0" by simp
    have submitted: "SendSwap (router p) sc v (gasLimitOf w) mf mp \<in> set (fst run)"
      using quoted by simp
    have "\<forall>c\<in>set (fst run). \<forall>sc'. swapOf c = Some sc' \<longrightarrow> minOutOf sc' = 0"
      using quoted floor by (auto dest: swapOf_stage)
    moreover have "snd run = sent w" using quoted by simp
    ultimately show ?thesis using submitted floor by blast
  qed
qed

theorem full_slippage_zero_floor_witness:
  "(\<exists>c\<in>set (fst (executeSell demoWorld (demoTrade ''Aerodrome'' 100))). isQuote c) \<and>
   w_amountsOut demoWorld = Inr [100000000000000000, 1000000] \<and>
   slippage (demoTrade ''Aerodrome'' 100) = Some 100 \<and>
   (\<exists>r sc v g mf mp.
      SendSwap r sc v g mf mp \<in> set (fst (executeSell demoWorld (demoTrade ''Aerodrome'' 100))) \<and>
      minOutOf sc = 0) \<and>
   snd (executeSell demoWorld (demoTrade ''Aerodrome'' 100)) = Inr ''0xb2''"
proof -
  let ?p = "demoTrade ''Aerodrome'' 100"
  let ?run = "executeSell demoWorld ?p"
  have "GetAmountsOut demoRouter 5000 (AeroRoutes [(demoToken, WETH_BASE, False)]) \<in> set (fst ?run)"
    by code_simp
  then have q: "\<exists>c\<in>set (fst ?run). isQuote c"
    by (rule bexI [rotated]) simp
  have a: "w_amountsOut demoWorld = Inr [100000000000000000, 1000000]"
    by (simp add: demoWorld_def)
  have s: "slippage ?p = Some 100" by (simp add: demoTrade_def)
  have r: "sent demoWorld = Inr ''0xb2''" by (simp add: sent_def demoWorld_def)
  from full_slippage_zero_floor [OF disjI2 [OF refl] q a _ _ s] q a s r
  show ?thesis by simp
qed

section \<open>Native price cache\<close>

text \<open>
  Claim C8. The time-to-live is 30 seconds. A call within the window of the cached entry
  returns the cached price and reads nothing. A call with no entry or a stale one reads the
  feed first; when both reads answer it caches and returns the new price, and when a read
  fails it leaves the cache as it is and returns the cached price, or zero when nothing is
  cached. A second call within the window of the entry left by a first call returns the
  value of the first call without reading.
\<close>

theorem price_cache_ttl:
  "CACHE_TTL = 30000 \<and>
   (\<forall>e. cache = Some e \<longrightarrow> p_now f - timestamp e < CACHE_TTL \<longrightarrow>
      fetchEthPrice f cache = ([], cache, price e)) \<and>
   ((\<forall>e. cache = Some e \<longrightarrow> CACHE_TTL \<le> p_now f - timestamp e) \<longrightarrow>
      (\<exists>rest. fst (fetchEthPrice f cache) = LatestRoundData # rest) \<and>
      (\<forall>answer d. p_latestRoundData f = Inr answer \<longrightarrow> p_feedDecimals f = Inr d \<longrightarrow>
         fetchEthPrice f cache =
           ([LatestRoundData, FeedDecimals],
            Some \<lparr>price = of_int answer / 10 ^ d, timestamp = p_stamp f\<rparr>,
            of_int answer / 10 ^ d)) \<and>
      ((\<exists>m. p_latestRoundData f = Inl m) \<or> (\<exists>m. p_feedDecimals f = Inl m) \<longrightarrow>
         snd (fetchEthPrice f cache) =
           (cache, (case cache of None \<Rightarrow> 0 | Some e \<Rightarrow> price e)))) \<and>
   (\<forall>e f'. fst (snd (fetchEthPrice f cache)) = Some e \<longrightarrow>
      p_now f' - timestamp e < CACHE_TTL \<longrightarrow>
      fetchEthPrice f' (Some e) = ([], Some e, snd (snd (fetchEthPrice f cache))))"
  by (auto simp: fetchEthPrice_def cacheFresh_def cachedOrZero_def CACHE_TTL_def Let_def
      split: option.splits sum.splits)

theorem price_cache_ttl_witness:
  "fetchEthPrice (demoFeed 1000000 (Inr 250000000000)) None =
     ([LatestRoundData, FeedDecimals], Some demoEntry, 2500) \<and>
   p_now (demoFeed 1030199 (Inr 260000000000)) - timestamp demoEntry < CACHE_TTL \<and>
   fetchEthPrice (demoFeed 1030199 (Inr 260000000000)) (Some demoEntry) =
     ([], Some demoEntry, 2500) \<and>
   CACHE_TTL \<le> p_now (demoFeed 1030200 (Inl ''timeout'')) - timestamp demoEntry \<and>
   (\<exists>rest. fst (fetchEthPrice (demoFeed 1030200 (Inl ''timeout'')) (Some demoEntry)) =
              LatestRoundData # rest) \<and>
   snd (fetchEthPrice (demoFeed 1030200 (Inl ''timeout'')) (Some demoEntry)) =
     (Some demoEntry, 2500) \<and>
   snd (fetchEthPrice (demoFeed 1030200 (Inl ''timeout'')) None) = (None, 0)"
proof -
  have ttl: "CACHE_TTL = 30000"
    using price_cache_ttl [where f = "demoFeed 1000000 (Inr 250000000000)" and cache = None] by blast
  have first: "fetchEthPrice (demoFeed 1000000 (Inr 250000000000)) None =
      ([LatestRoundData, FeedDecimals], Some demoEntry, 2500)"
    using price_cache_ttl [where f = "demoFeed 1000000 (Inr 250000000000)" and cache = None]
    by (simp add: demoFeed_def demoEntry_def)
  have fresh: "p_now (demoFeed 1030199 (Inr 260000000000)) - timestamp demoEntry < CACHE_TTL"
    by (simp add: ttl demoFeed_def demoEntry_def)
  have stale: "CACHE_TTL \<le> p_now (demoFeed 1030200 (Inl ''timeout'')) - timestamp demoEntry"
    by (simp add: ttl demoFeed_def demoEntry_def)
  have failing: "p_latestRoundData (demoFeed 1030200 (Inl ''timeout'')) = Inl ''timeout''"
    by (simp add: demoFeed_def)
  have second: "fetchEthPrice (demoFeed 1030199 (Inr 260000000000)) (Some demoEntry) =
      ([], Some demoEntry, 2500)"
    using price_cache_ttl [where f = "demoFeed 1030199 (Inr 260000000000)" and cache = "Some demoEntry"] fresh
    by (simp add: demoEntry_def)
  have third: "(\<exists>rest. fst (fetchEthPrice (demoFeed 1030200 (Inl ''timeout'')) (Some demoEntry)) =
        LatestRoundData # rest) \<and>
      snd (fetchEthPrice (demoFeed 1030200 (Inl ''timeout'')) (Some demoEntry)) =
        (Some demoEntry, 2500)"
    using price_cache_ttl [where f = "demoFeed 1030200 (Inl ''timeout'')" and cache = "Some demoEntry"] stale failing
    by (simp add: demoEntry_def)
  have fourth: "snd (fetchEthPrice (demoFeed 1030200 (Inl ''timeout'')) None) = (None, 0)"
    using price_cache_ttl [where f = "demoFeed 1030200 (Inl ''timeout'')" and cache = None] failing
    by simp
  from first fresh second stale third fourth show ?thesis by blast
qed

section \<open>Sealing the key\<close>

text \<open>
  Claim C6. One call of \<open>encryptKey\<close> draws sixteen bytes for the salt and then twelve for
  the nonce from the generator, at positions no earlier call has read, and leaves the
  generator twenty-eight bytes further. Provided that AES-GCM decrypts what it encrypted
  under the same key and nonce, that base64 decoding returns the bytes of the blob and
  that the text decoder returns the encoded key string (as it does for the hexadecimal
  digits and the prefix), \<open>decryptKey\<close> with the same password returns the original key
  string. With another password, when AES-GCM rejects the ciphertext under the key derived
  from it, \<open>decryptKey\<close> fails with that rejection and returns no key.
\<close>

theorem encrypt_then_decrypt:
  assumes salt: "salt = map rnd [pos..<pos + 16]"
    and iv: "iv = map rnd [pos + 16..<pos + 28]"
    and enc: "x_encrypt x (x_deriveKey x password salt) iv (x_encode x privateKey) = Inr ct"
    and blob: "blob = x_btoa x (salt @ iv @ ct)"
    and b64: "x_atob x blob = Inr (salt @ iv @ ct)"
    and dec: "x_decrypt x (x_deriveKey x password salt) iv ct = Inr (x_encode x privateKey)"
    and codec: "x_decode x (x_encode x privateKey) = privateKey"
  shows "encryptKey x rnd pos privateKey password =
           ([GetRandomValues 16, GetRandomValues 12], Inr blob, pos + 28) \<and>
         length salt = 16 \<and> length iv = 12 \<and>
         decryptKey x blob password = Inr privateKey \<and>
         (\<forall>other m. x_decrypt x (x_deriveKey x other salt) iv ct = Inl m \<longrightarrow>
            decryptKey x blob other = Inl m \<and> (\<forall>k. decryptKey x blob other \<noteq> Inr k))"
proof -
  have len: "length salt = 16" "length iv = 12"
    by (simp_all add: salt iv)
  have "encryptKey x rnd pos privateKey password =
      ([GetRandomValues 16, GetRandomValues 12], Inr blob, pos + 28)"
    using enc by (simp add: encryptKey_def getRandomValues_def salt iv blob add.assoc)
  moreover have "decryptKey x blob password = Inr privateKey"
    by (simp add: decryptKey_def b64 len dec codec)
  moreover have "decryptKey x blob other = Inl m"
    if "x_decrypt x (x_deriveKey x other salt) iv ct = Inl m" for other m
    using that by (simp add: decryptKey_def b64 len)
  ultimately show ?thesis using len by simp
qed

theorem encrypt_then_decrypt_witness:
  "(\<exists>blob. encryptKey demoExternals demoRandom 0 demoKey ''pw'' =
              ([GetRandomValues 16, GetRandomValues 12], Inr blob, 28) \<and>
           decryptKey demoExternals blob ''pw'' = Inr demoKey \<and>
           decryptKey demoExternals blob ''no'' = Inl ''OperationError'') \<and>
   (\<exists>blob. encryptKey demoExternals demoRandom 28 (''0x'' @ demoKey) ''pw'' =
              ([GetRandomValues 16, GetRandomValues 12], Inr blob, 56) \<and>
           decryptKey demoExternals blob ''pw'' = Inr (''0x'' @ demoKey) \<and>
           decryptKey demoExternals blob ''no'' = Inl ''OperationError'')"
proof -
  have round: "\<exists>blob. encryptKey demoExternals demoRandom pos key ''pw'' =
        ([GetRandomValues 16, GetRandomValues 12], Inr blob, pos + 28) \<and>
      decryptKey demoExternals blob ''pw'' = Inr key \<and>
      decryptKey demoExternals blob ''no'' = Inl ''OperationError''"
    if ascii: "list_all (\<lambda>c. of_char c < (128 :: nat)) key" for pos key
  proof -
    let ?x = demoExternals
    let ?salt = "map demoRandom [pos..<pos + 16]"
    let ?iv = "map demoRandom [pos + 16..<pos + 28]"
    let ?ct = "x_encode ?x key @ map of_char (x_deriveKey ?x ''pw'' ?salt)"
    let ?blob = "x_btoa ?x (?salt @ ?iv @ ?ct)"
    have bytes: "map of_char (map char_of bs :: string) = bs"
      if "list_all (\<lambda>b. b < 256) bs" for bs :: "nat list"
      using that by (induction bs) simp_all
    have enc: "x_encrypt ?x (x_deriveKey ?x ''pw'' ?salt) ?iv (x_encode ?x key) = Inr ?ct"
      by (simp add: demoExternals_def)
    have sel: "x_atob ?x = (\<lambda>s. Inr (map of_char s))" "x_btoa ?x = map char_of"
      by (simp_all add: demoExternals_def)
    have "list_all (\<lambda>b. b < 256) (?salt @ ?iv @ ?ct)"
      by (auto simp: list_all_iff demoExternals_def demoRandom_def)
    then have "map of_char (map char_of (?salt @ ?iv @ ?ct) :: string) = ?salt @ ?iv @ ?ct"
      by (rule bytes)
    then have b64: "x_atob ?x ?blob = Inr (?salt @ ?iv @ ?ct)"
      by (simp only: sel)
    have dec: "x_decrypt ?x (x_deriveKey ?x ''pw'' ?salt) ?iv ?ct = Inr (x_encode ?x key)"
      by (simp add: demoExternals_def)
    have codec: "x_decode ?x (x_encode ?x key) = key"
      by (simp add: demoExternals_def map_idI)
    have wrong: "x_decrypt ?x (x_deriveKey ?x ''no'' ?salt) ?iv ?ct = Inl ''OperationError''"
      by (simp add: demoExternals_def)
    from encrypt_then_decrypt [OF refl refl enc refl b64 dec codec] wrong
    show ?thesis by blast
  qed
  have "list_all (\<lambda>c. of_char c < (128 :: nat)) demoKey"
    and "list_all (\<lambda>c. of_char c < (128 :: nat)) (''0x'' @ demoKey)"
    by (simp_all add: demoKey_def)
  from round [OF this(1), of 0] round [OF this(2), of 28] show ?thesis by simp
qed

section \<open>Disconnecting\<close>

lemma unlock_no_key:
  "loadEncryptedKey (storage a) = None \<Longrightarrow>
   unlock x a password = (a\<lparr>state := (state a)\<lparr>isLoading := False\<rparr>\<rparr>, Inl (Error ''No stored wallet''))"
  by (simp add: unlock_def)

lemma unlock_storage: "storage (fst (unlock x a password)) = storage a"
  by (simp add: unlock_def Let_def split: option.splits sum.splits prod.splits)

text \<open>
  Claim C9. After \<open>disconnect\<close> the stored-key check is false and the blob is gone, so
  \<open>unlock\<close> fails with \<open>No stored wallet\<close> for every password and leaves the store
  empty of it; every other entry of the store is as before; the wallet session is
  dropped.
\<close>

theorem disconnect_clears_custody:
  "\<not> hasStoredKey (storage (disconnect a)) \<and>
   loadEncryptedKey (storage (disconnect a)) = None \<and>
   snd (unlock x (disconnect a) password) = Inl (Error ''No stored wallet'') \<and>
   storage (fst (unlock x (disconnect a) password)) = storage (disconnect a) \<and>
   (\<forall>k. k \<noteq> STORAGE_KEY \<longrightarrow> storage (disconnect a) k = storage a k) \<and>
   ws_wallet (state (disconnect a)) = None \<and>
   \<not> isConnected (state (disconnect a)) \<and> \<not> hasStored (state (disconnect a))"
proof -
  have none: "loadEncryptedKey (storage (disconnect a)) = None"
    by (simp add: disconnect_def clearStoredKey_def loadEncryptedKey_def)
  have "snd (unlock x (disconnect a) password) = Inl (Error ''No stored wallet'')"
    by (simp add: unlock_no_key [OF none])
  moreover have "\<not> hasStoredKey (storage (disconnect a))"
    by (simp add: disconnect_def clearStoredKey_def hasStoredKey_def)
  moreover have "\<forall>k. k \<noteq> STORAGE_KEY \<longrightarrow> storage (disconnect a) k = storage a k"
    by (simp add: disconnect_def clearStoredKey_def)
  moreover have "ws_wallet (state (disconnect a)) = None"
    "\<not> isConnected (state (disconnect a))" "\<not> hasStored (state (disconnect a))"
    by (simp_all add: disconnect_def)
  ultimately show ?thesis
    using none unlock_storage [of x "disconnect a" password] by simp
qed

theorem disconnect_clears_custody_witness:
  "hasStoredKey (storage demoApp) \<and> \<not> hasStoredKey (storage (disconnect demoApp)) \<and>
   snd (unlock demoExternals (disconnect demoApp) ''pw'') = Inl (Error ''No stored wallet'') \<and>
   ''theme'' \<noteq> STORAGE_KEY \<and>
   storage (disconnect demoApp) ''theme'' = Some ''dark''"
proof -
  have before: "hasStoredKey (storage demoApp)" "''theme'' \<noteq> STORAGE_KEY"
    "storage demoApp ''theme'' = Some ''dark''"
    by (simp_all add: demoApp_def hasStoredKey_def STORAGE_KEY_def)
  from disconnect_clears_custody [of demoApp demoExternals "''pw''"] before
  show ?thesis by simp
qed

end
